theory Spec2Isabelle
  imports Complex_Main "HOL-Library.Log_Nat"
begin

section \<open>Conventions of the embedding\<close>

text \<open>
  The wallet tracker is JavaScript. A JavaScript number is a \<open>jsnum\<close>: a finite double,
  given by its exact rational value, or one of \<open>Infinity\<close>, \<open>-Infinity\<close> and \<open>NaN\<close>; the
  arithmetic rounds to the nearest double, ties to even, as IEEE 754 does. Lamport
  balances, which the code only subtracts and compares with two thresholds, are the
  integer values of the doubles the provider's JSON holds. Counters are \<open>nat\<close>.
  Timestamps are milliseconds since the epoch where the code compares them
  (\<open>new Date(s).getTime()\<close>) and opaque strings where it only stores them. A field that
  can be \<open>undefined\<close> or \<open>null\<close> is an \<open>option\<close>. A JavaScript \<open>Map\<close>, whose iteration order
  is its insertion order, is an association list. A string is the list of its code
  units, all below 256.
\<close>

subsection \<open>Strings\<close>

text \<open>
  \<open>String.prototype.toLowerCase\<close> and \<open>String.prototype.trim\<close> on code units below 256:
  the letters with a lower-case form are A to Z (U+0041 to U+005A) and U+00C0 to U+00DE
  without U+00D7, and the lower-case form is 32 code units above; the white space is
  U+0009 to U+000D, U+0020 and U+00A0.
\<close>

definition toLowerChar :: "char \<Rightarrow> char" where
  "toLowerChar c =
     (let n = (of_char c :: int)
      in if (65 \<le> n \<and> n \<le> 90) \<or> (192 \<le> n \<and> n \<le> 222 \<and> n \<noteq> 215)
         then char_of (n + 32) else c)"

definition toLowerCase :: "string \<Rightarrow> string" where
  "toLowerCase s = map toLowerChar s"

definition whitespace :: string where
  "whitespace = [CHR 0x09, CHR 0x0A, CHR 0x0B, CHR 0x0C, CHR 0x0D, CHR 0x20, CHR 0xA0]"

definition isSpace :: "char \<Rightarrow> bool" where
  "isSpace c = (c \<in> set whitespace)"

definition trim :: "string \<Rightarrow> string" where
  "trim s = rev (dropWhile isSpace (rev (dropWhile isSpace s)))"

text \<open>JavaScript truthiness of an optional string: \<open>undefined\<close>, \<open>null\<close> and \<open>""\<close> are falsy.\<close>

fun truthyStr :: "string option \<Rightarrow> bool" where
  "truthyStr None = False"
| "truthyStr (Some s) = (s \<noteq> [])"

subsection \<open>Insertion-ordered maps\<close>

text \<open>\<open>Map.prototype.set\<close>: an existing key keeps its position, a new key goes last.\<close>

fun mapSet :: "'k \<Rightarrow> 'v \<Rightarrow> ('k \<times> 'v) list \<Rightarrow> ('k \<times> 'v) list" where
  "mapSet k v [] = [(k, v)]"
| "mapSet k v (p # ps) = (if fst p = k then (k, v) # ps else p # mapSet k v ps)"

definition mapGet :: "('k \<times> 'v) list \<Rightarrow> 'k \<Rightarrow> 'v option" where
  "mapGet al k = map_of al k"

subsection \<open>Numbers\<close>

datatype jsnum = Num rat | PInf | NInf | NaN

text \<open>
  Rounding a rational to the nearest double. \<open>ilog2 a\<close> is the binary exponent of a
  positive \<open>a\<close>; below the normal range the spacing of the doubles stays at \<open>2^-1074\<close>; a
  result that rounds to \<open>2^1024\<close> or more overflows to an infinity.
\<close>

definition pow2 :: "int \<Rightarrow> rat" where
  "pow2 k = (if 0 \<le> k then of_int (2 ^ nat k) else 1 / of_int (2 ^ nat (- k)))"

definition roundHalfEven :: "rat \<Rightarrow> int" where
  "roundHalfEven r =
     (let f = \<lfloor>r\<rfloor>; d = r - of_int f
      in if d < 1 / 2 then f else if d > 1 / 2 then f + 1 else if even f then f else f + 1)"

definition ilog2 :: "rat \<Rightarrow> int" where
  "ilog2 a =
     (let e0 = bitlen (fst (quotient_of a)) - bitlen (snd (quotient_of a))
      in if pow2 e0 \<le> a then e0 else e0 - 1)"

definition roundRat :: "rat \<Rightarrow> jsnum" where
  "roundRat x =
     (if x = 0 then Num 0
      else
        let a = \<bar>x\<bar>;
            e = max (ilog2 a) (- 1022);
            ulp = pow2 (e - 52);
            v = of_int (roundHalfEven (a / ulp)) * ulp
        in if v \<ge> pow2 1024 then (if x > 0 then PInf else NInf)
           else Num (if x > 0 then v else - v))"

text \<open>
  The operators the code uses: \<open>+\<close>, unary \<open>-\<close>, binary \<open>-\<close>, \<open>/\<close>, \<open><\<close>, \<open><=\<close> (\<open>a > b\<close> is
  \<open>b < a\<close>) and \<open>Math.abs\<close>. The sign of a zero is not kept: it shows only when a zero is
  the divisor, and every division of the code has a positive divisor.
\<close>

fun jadd :: "jsnum \<Rightarrow> jsnum \<Rightarrow> jsnum" where
  "jadd (Num a) (Num b) = roundRat (a + b)"
| "jadd NaN y = NaN"
| "jadd x NaN = NaN"
| "jadd PInf NInf = NaN"
| "jadd NInf PInf = NaN"
| "jadd PInf y = PInf"
| "jadd NInf y = NInf"
| "jadd x PInf = PInf"
| "jadd x NInf = NInf"

fun jneg :: "jsnum \<Rightarrow> jsnum" where
  "jneg (Num a) = Num (- a)"
| "jneg PInf = NInf"
| "jneg NInf = PInf"
| "jneg NaN = NaN"

definition jsub :: "jsnum \<Rightarrow> jsnum \<Rightarrow> jsnum" where
  "jsub x y = jadd x (jneg y)"

fun jdiv :: "jsnum \<Rightarrow> jsnum \<Rightarrow> jsnum" where
  "jdiv (Num a) (Num b) =
     (if b \<noteq> 0 then roundRat (a / b)
      else if a = 0 then NaN else if a > 0 then PInf else NInf)"
| "jdiv NaN y = NaN"
| "jdiv x NaN = NaN"
| "jdiv (Num a) y = Num 0"
| "jdiv PInf (Num b) = (if b < 0 then NInf else PInf)"
| "jdiv NInf (Num b) = (if b < 0 then PInf else NInf)"
| "jdiv x y = NaN"

fun jless :: "jsnum \<Rightarrow> jsnum \<Rightarrow> bool" where
  "jless (Num a) (Num b) = (a < b)"
| "jless NaN y = False"
| "jless x NaN = False"
| "jless x NInf = False"
| "jless PInf y = False"
| "jless NInf y = True"
| "jless x PInf = True"

fun jle :: "jsnum \<Rightarrow> jsnum \<Rightarrow> bool" where
  "jle (Num a) (Num b) = (a \<le> b)"
| "jle NaN y = False"
| "jle x NaN = False"
| "jle NInf y = True"
| "jle x PInf = True"
| "jle x y = False"

fun jabs :: "jsnum \<Rightarrow> jsnum" where
  "jabs (Num a) = Num \<bar>a\<bar>"
| "jabs NaN = NaN"
| "jabs x = PInf"

text \<open>\<open>x || 0\<close> on a number that may be absent: \<open>undefined\<close>, \<open>0\<close> and \<open>NaN\<close> give 0.\<close>

definition orZero :: "jsnum option \<Rightarrow> jsnum" where
  "orZero x = (case x of None \<Rightarrow> Num 0 | Some NaN \<Rightarrow> Num 0 | Some v \<Rightarrow> v)"

text \<open>
  \<open>Number(s)\<close> on a string that spells an integer in decimal digits, the form in which
  the ledger gives raw token amounts, and \<open>Math.pow(10, d)\<close>, taken as correctly rounded (it is exact up to
  \<open>d = 22\<close>).
\<close>

definition numberOfDigits :: "int \<Rightarrow> jsnum" where
  "numberOfDigits n = roundRat (of_int n)"

definition pow10 :: "nat \<Rightarrow> jsnum" where
  "pow10 d = roundRat (10 ^ d)"

section \<open>Transfer classifier: \<open>parseTokenTransfer\<close> (services/solanaApi.js)\<close>

datatype tx_type = BUY | SELL | TRANSFER_OUT | TRANSFER_IN | LEGACY

text \<open>
  One entry of \<open>meta.preTokenBalances\<close> / \<open>meta.postTokenBalances\<close>. \<open>tb_amount\<close> is
  \<open>uiTokenAmount?.amount\<close>, the raw amount, which the ledger gives as a string of decimal
  digits; the field holds the number the digits spell (the code reads it with
  \<open>Number(... || 0)\<close>, that is as a double).
\<close>

record token_balance =
  tb_mint :: "string option"
  tb_owner :: "string option"
  tb_amount :: "int option"
  tb_decimals :: "nat option"

text \<open>
  A parsed transaction. \<open>accountKeys\<close> holds each key already rendered as a string (the
  code accepts \<open>{pubkey}\<close>, a string or any object with \<open>toString\<close>; an entry that renders
  to no string is \<open>''''\<close>). The balance tables are in lamports.
\<close>

record raw_tx =
  preTokenBalances :: "token_balance list"
  postTokenBalances :: "token_balance list"
  accountKeys :: "string list"
  preBalances :: "int list"
  postBalances :: "int list"

record wallet_change =
  wc_pre :: jsnum
  wc_post :: jsnum
  wc_decimals :: nat
  wc_address :: string

record scan_state =
  walletChanges :: "(string \<times> wallet_change) list"
  preAmount :: jsnum
  postAmount :: jsnum
  decimals :: nat
  foundWallet :: bool
  foundMint :: bool

record token_transfer =
  tt_type :: tx_type
  tt_amount :: jsnum
  tt_rawAmount :: jsnum
  tt_decimals :: nat
  tt_toWallet :: "string option"
  tt_fromWallet :: "string option"
  tt_solChange :: real

definition initScan :: scan_state where
  "initScan = \<lparr>walletChanges = [], preAmount = Num 0, postAmount = Num 0, decimals = 9,
                foundWallet = False, foundMint = False\<rparr>"

text \<open>\<open>Number(bal.uiTokenAmount?.amount || 0)\<close> and \<open>bal.uiTokenAmount?.decimals || 9\<close>.\<close>

definition amountOf :: "token_balance \<Rightarrow> jsnum" where
  "amountOf bal = (case tb_amount bal of None \<Rightarrow> Num 0 | Some n \<Rightarrow> numberOfDigits n)"

definition decimalsOf :: "token_balance \<Rightarrow> nat" where
  "decimalsOf bal = (case tb_decimals bal of None \<Rightarrow> 9 | Some d \<Rightarrow> if d = 0 then 9 else d)"

text \<open>\<open>bal.mint && bal.mint.toLowerCase() === mintNormalized.toLowerCase() && bal.owner\<close>\<close>

definition matchesMint :: "string \<Rightarrow> token_balance \<Rightarrow> bool" where
  "matchesMint mintNormalized bal =
     (truthyStr (tb_mint bal) \<and> toLowerCase (the (tb_mint bal)) = toLowerCase mintNormalized
      \<and> truthyStr (tb_owner bal))"

definition preStep :: "string \<Rightarrow> string \<Rightarrow> scan_state \<Rightarrow> token_balance \<Rightarrow> scan_state" where
  "preStep walletNormalized mintNormalized st bal =
     (if matchesMint mintNormalized bal then
        let owner = the (tb_owner bal);
            ownerKey = toLowerCase owner;
            amount = amountOf bal;
            oldPost = orZero (map_option wc_post (mapGet (walletChanges st) ownerKey));
            st1 = st\<lparr>foundMint := True,
                     walletChanges := mapSet ownerKey
                       \<lparr>wc_pre = amount, wc_post = oldPost, wc_decimals = decimalsOf bal,
                        wc_address = owner\<rparr> (walletChanges st)\<rparr>
        in if toLowerCase owner = toLowerCase walletNormalized
           then st1\<lparr>preAmount := amount, decimals := decimalsOf bal, foundWallet := True\<rparr>
           else st1
      else st)"

definition postStep :: "string \<Rightarrow> string \<Rightarrow> scan_state \<Rightarrow> token_balance \<Rightarrow> scan_state" where
  "postStep walletNormalized mintNormalized st bal =
     (if matchesMint mintNormalized bal then
        let owner = the (tb_owner bal);
            ownerKey = toLowerCase owner;
            amount = amountOf bal;
            existing = (case mapGet (walletChanges st) ownerKey of
                          None \<Rightarrow> \<lparr>wc_pre = Num 0, wc_post = Num 0, wc_decimals = 9,
                                   wc_address = owner\<rparr>
                        | Some e \<Rightarrow> e);
            st1 = st\<lparr>foundMint := True,
                     walletChanges := mapSet ownerKey (existing\<lparr>wc_post := amount\<rparr>)
                       (walletChanges st)\<rparr>
        in if toLowerCase owner = toLowerCase walletNormalized
           then st1\<lparr>postAmount := amount, decimals := decimalsOf bal, foundWallet := True\<rparr>
           else st1
      else st)"

text \<open>The two \<open>for ... of\<close> passes over the balance tables, pre-balances first.\<close>

definition scanBalances :: "raw_tx \<Rightarrow> string \<Rightarrow> string \<Rightarrow> scan_state" where
  "scanBalances tx walletAddress tokenMint =
     foldl (postStep (trim walletAddress) (trim tokenMint))
       (foldl (preStep (trim walletAddress) (trim tokenMint)) initScan (preTokenBalances tx))
       (postTokenBalances tx)"

definition tokenChange :: "raw_tx \<Rightarrow> string \<Rightarrow> string \<Rightarrow> jsnum" where
  "tokenChange tx walletAddress tokenMint =
     (let st = scanBalances tx walletAddress tokenMint in jsub (postAmount st) (preAmount st))"

text \<open>\<open>arr[i] || 0\<close>: an index past the end reads \<open>undefined\<close>, which becomes 0.\<close>

definition nthOr0 :: "int list \<Rightarrow> nat \<Rightarrow> int" where
  "nthOr0 xs i = (if i < length xs then xs ! i else 0)"

text \<open>
  The loop over \<open>accountKeys\<close>: the first key equal to the wallet (ignoring case) gives
  \<open>postSol - preSol\<close>; if there is none, \<open>solChange\<close> stays 0.
\<close>

fun findSolChange :: "string \<Rightarrow> int list \<Rightarrow> int list \<Rightarrow> nat \<Rightarrow> string list \<Rightarrow> int" where
  "findSolChange walletNormalized pre post i [] = 0"
| "findSolChange walletNormalized pre post i (keyStr # keys) =
     (if keyStr \<noteq> [] \<and> toLowerCase keyStr = toLowerCase walletNormalized
      then nthOr0 post i - nthOr0 pre i
      else findSolChange walletNormalized pre post (Suc i) keys)"

definition solChange :: "raw_tx \<Rightarrow> string \<Rightarrow> int" where
  "solChange tx walletAddress =
     findSolChange (trim walletAddress) (preBalances tx) (postBalances tx) 0 (accountKeys tx)"

text \<open>
  \<open>solChange / 1e9\<close>, as the exact quotient: on integer lamports it stands to the two
  thresholds, 0.001 and -0.01, as the rounded quotient stands to the rounded
  thresholds.
\<close>

definition solChangeInSol :: "raw_tx \<Rightarrow> string \<Rightarrow> real" where
  "solChangeInSol tx walletAddress = real_of_int (solChange tx walletAddress) / 1000000000"

text \<open>The counterparty searches: the first other owner whose balance rose (fell).\<close>

fun findToWallet :: "string \<Rightarrow> (string \<times> wallet_change) list \<Rightarrow> string option" where
  "findToWallet me [] = None"
| "findToWallet me ((ownerKey, d) # rest) =
     (if ownerKey \<noteq> me \<and> jless (Num 0) (jsub (wc_post d) (wc_pre d)) then Some (wc_address d)
      else findToWallet me rest)"

fun findFromWallet :: "string \<Rightarrow> (string \<times> wallet_change) list \<Rightarrow> string option" where
  "findFromWallet me [] = None"
| "findFromWallet me ((ownerKey, d) # rest) =
     (if ownerKey \<noteq> me \<and> jless (jsub (wc_post d) (wc_pre d)) (Num 0) then Some (wc_address d)
      else findFromWallet me rest)"

text \<open>
  \<open>parseTokenTransfer\<close>. After \<open>tokenChange === 0\<close> has returned \<open>null\<close>, the branch
  \<open>tokenChange < 0\<close> is the outgoing one and its \<open>else\<close> the incoming one.
\<close>

definition parseTokenTransfer :: "raw_tx \<Rightarrow> string \<Rightarrow> string \<Rightarrow> token_transfer option" where
  "parseTokenTransfer tx walletAddress tokenMint =
     (if preTokenBalances tx = [] \<and> postTokenBalances tx = [] then None
      else
        let st = scanBalances tx walletAddress tokenMint;
            me = toLowerCase (trim walletAddress)
        in if \<not> foundMint st then None
           else
             let change = jsub (postAmount st) (preAmount st) in
             if change = Num 0 then None
             else
               let sol = solChangeInSol tx walletAddress;
                   amount = jdiv (jabs change) (pow10 (decimals st))
               in if jless change (Num 0) then
                    Some \<lparr>tt_type = (if sol > 0.001 then SELL else TRANSFER_OUT),
                          tt_amount = amount, tt_rawAmount = jabs change,
                          tt_decimals = decimals st,
                          tt_toWallet = findToWallet me (walletChanges st),
                          tt_fromWallet = None, tt_solChange = sol\<rparr>
                  else
                    Some \<lparr>tt_type = (if sol < - 0.01 then BUY else TRANSFER_IN),
                          tt_amount = amount, tt_rawAmount = jabs change,
                          tt_decimals = decimals st,
                          tt_toWallet = None,
                          tt_fromWallet = findFromWallet me (walletChanges st),
                          tt_solChange = sol\<rparr>)"

text \<open>
  The delta the two passes arrive at, read off the balance tables: each pass keeps the
  amount of the last entry that matches the asset and belongs to the wallet (0 if there
  is none), and the delta is the difference of the two amounts, as doubles.
\<close>

definition ownedBy :: "string \<Rightarrow> string \<Rightarrow> token_balance \<Rightarrow> bool" where
  "ownedBy walletAddress tokenMint bal =
     (matchesMint (trim tokenMint) bal \<and>
      toLowerCase (the (tb_owner bal)) = toLowerCase (trim walletAddress))"

definition lastAmount :: "string \<Rightarrow> string \<Rightarrow> token_balance list \<Rightarrow> jsnum" where
  "lastAmount walletAddress tokenMint rows =
     (case rev (filter (ownedBy walletAddress tokenMint) rows) of
        [] \<Rightarrow> Num 0
      | bal # earlier \<Rightarrow> amountOf bal)"

definition entryDelta :: "raw_tx \<Rightarrow> string \<Rightarrow> string \<Rightarrow> jsnum" where
  "entryDelta tx walletAddress tokenMint =
     jsub (lastAmount walletAddress tokenMint (postTokenBalances tx))
          (lastAmount walletAddress tokenMint (preTokenBalances tx))"

text \<open>
  The wallet's token balance delta as the specification has it: the wallet's balance of
  the asset after the transaction minus its balance before, a balance being the exact
  total over the wallet's entries for the asset.
\<close>

definition rawOf :: "token_balance \<Rightarrow> int" where
  "rawOf bal = (case tb_amount bal of None \<Rightarrow> 0 | Some n \<Rightarrow> n)"

definition walletBalance :: "string \<Rightarrow> string \<Rightarrow> token_balance list \<Rightarrow> int" where
  "walletBalance walletAddress tokenMint rows =
     sum_list (map rawOf (filter (ownedBy walletAddress tokenMint) rows))"

definition walletDelta :: "raw_tx \<Rightarrow> string \<Rightarrow> string \<Rightarrow> int" where
  "walletDelta tx walletAddress tokenMint =
     walletBalance walletAddress tokenMint (postTokenBalances tx) -
     walletBalance walletAddress tokenMint (preTokenBalances tx)"

section \<open>Activity status deriver: \<open>getActivityStatus\<close> (components/HoldingsTable.jsx)\<close>

text \<open>
  A classified transfer as it is cached and displayed: the object that
  \<open>getWalletTransactions\<close> pushes (\<open>{signature, timestamp, walletAddress, ...tokenTransfer}\<close>).
  \<open>tr_timestamp\<close> is the ISO string read as milliseconds (\<open>None\<close> for \<open>null\<close>);
  \<open>tr_type = LEGACY\<close> stands for any type string of old stored data that is none of the
  four the classifier produces; \<open>tr_amount = None\<close> for a missing amount.
\<close>

record transfer =
  tr_signature :: string
  tr_timestamp :: "int option"
  tr_walletAddress :: "string option"
  tr_type :: tx_type
  tr_amount :: "jsnum option"
  tr_rawAmount :: jsnum
  tr_decimals :: nat
  tr_toWallet :: "string option"
  tr_fromWallet :: "string option"
  tr_solChange :: real

text \<open>A watched account, as the file import creates it.\<close>

record wallet =
  w_id :: string
  w_name :: string
  w_address :: string
  w_group :: string

definition FIFTEEN_MINS_MS :: int where
  "FIFTEEN_MINS_MS = 15 * 60 * 1000"

definition TWENTY_FOUR_HOURS_MS :: int where
  "TWENTY_FOUR_HOURS_MS = 24 * 60 * 60 * 1000"

text \<open>\<open>trackedAddresses\<close>: the map from lower-cased address to name.\<close>

definition trackedAddresses :: "wallet list \<Rightarrow> (string \<times> string) list" where
  "trackedAddresses wallets =
     foldl (\<lambda>m w. mapSet (toLowerCase (w_address w)) (w_name w) m) [] wallets"

definition mapHas :: "('k \<times> 'v) list \<Rightarrow> 'k \<Rightarrow> bool" where
  "mapHas al k = (mapGet al k \<noteq> None)"

text \<open>\<open>tx.amount || 0\<close>\<close>

definition amountOr0 :: "transfer \<Rightarrow> jsnum" where
  "amountOr0 tx = orZero (tr_amount tx)"

text \<open>
  An entry of \<open>walletTransactionsMap\<close>. The \<open>connectedWallets\<close> sub-map and the two
  display names added to each processed transaction are left out: the status deriver
  does not read them.
\<close>

record processed_tx =
  pt_tx :: transfer
  pt_category :: tx_type

record wallet_stats =
  ws_transactions :: "processed_tx list"
  totalBought :: jsnum
  totalSold :: jsnum
  totalTransferredOut :: jsnum
  totalTransferredIn :: jsnum

definition emptyStats :: wallet_stats where
  "emptyStats = \<lparr>ws_transactions = [], totalBought = Num 0, totalSold = Num 0,
                  totalTransferredOut = Num 0, totalTransferredIn = Num 0\<rparr>"

text \<open>
  The category chain of the map builder. The last branch is the source's ``legacy
  fallback'': a type that is none of the four counts as a transfer out when its
  destination is a tracked wallet and as a sale otherwise.
\<close>

definition categoryOf :: "(string \<times> string) list \<Rightarrow> transfer \<Rightarrow> tx_type" where
  "categoryOf tracked tx =
     (case tr_type tx of
        BUY \<Rightarrow> BUY
      | TRANSFER_IN \<Rightarrow> TRANSFER_IN
      | TRANSFER_OUT \<Rightarrow> TRANSFER_OUT
      | SELL \<Rightarrow> SELL
      | LEGACY \<Rightarrow>
          (if truthyStr (tr_toWallet tx) \<and> mapHas tracked (toLowerCase (the (tr_toWallet tx)))
           then TRANSFER_OUT else SELL))"

definition addToStats :: "(string \<times> string) list \<Rightarrow> wallet_stats \<Rightarrow> transfer \<Rightarrow> wallet_stats" where
  "addToStats tracked wd tx =
     (let category = categoryOf tracked tx;
          a = amountOr0 tx;
          wd1 = (case category of
                   BUY \<Rightarrow> wd\<lparr>totalBought := jadd (totalBought wd) a\<rparr>
                 | TRANSFER_IN \<Rightarrow>
                     wd\<lparr>totalTransferredIn := jadd (totalTransferredIn wd) a,
                        totalBought := jadd (totalBought wd) a\<rparr>
                 | TRANSFER_OUT \<Rightarrow>
                     wd\<lparr>totalTransferredOut := jadd (totalTransferredOut wd) a\<rparr>
                 | SELL \<Rightarrow> wd\<lparr>totalSold := jadd (totalSold wd) a\<rparr>
                 | LEGACY \<Rightarrow> wd)
      in wd1\<lparr>ws_transactions :=
               ws_transactions wd1 @ [\<lparr>pt_tx = tx, pt_category = category\<rparr>]\<rparr>)"

text \<open>One step of \<open>transactions.forEach\<close>: a transfer without wallet address is skipped.\<close>

definition addTx ::
  "(string \<times> string) list \<Rightarrow> (string \<times> wallet_stats) list \<Rightarrow> transfer
     \<Rightarrow> (string \<times> wallet_stats) list" where
  "addTx tracked m tx =
     (if \<not> truthyStr (tr_walletAddress tx) then m
      else
        let walletKey = toLowerCase (the (tr_walletAddress tx));
            wd = (case mapGet m walletKey of None \<Rightarrow> emptyStats | Some d \<Rightarrow> d)
        in mapSet walletKey (addToStats tracked wd tx) m)"

definition walletTransactionsMap ::
  "wallet list \<Rightarrow> transfer list \<Rightarrow> (string \<times> wallet_stats) list" where
  "walletTransactionsMap wallets transactions =
     foldl (addTx (trackedAddresses wallets)) [] transactions"

text \<open>The table's own \<open>getWalletTransactions\<close> callback (not the API function).\<close>

definition getWalletTransactions_table ::
  "wallet list \<Rightarrow> transfer list \<Rightarrow> string \<Rightarrow> processed_tx list" where
  "getWalletTransactions_table wallets transactions walletAddress =
     (case mapGet (walletTransactionsMap wallets transactions) (toLowerCase walletAddress) of
        None \<Rightarrow> [] | Some d \<Rightarrow> ws_transactions d)"

datatype activity_status =
  OUT | UNKNOWN | SELLING | SOLD | TRANSFERRED | RECEIVED | FIRST_BUY | BOUGHT_MORE | HOLDING

record activity_acc =
  sellsIn15Mins :: bool
  sellsIn24Hours :: bool
  sellAmountIn24Hours :: jsnum
  transfersOutIn24Hours :: bool
  transfersInIn24Hours :: bool
  buysIn24Hours :: bool
  totalBuys :: nat
  totalTransfersIn :: nat

definition initAcc :: activity_acc where
  "initAcc = \<lparr>sellsIn15Mins = False, sellsIn24Hours = False, sellAmountIn24Hours = Num 0,
               transfersOutIn24Hours = False, transfersInIn24Hours = False,
               buysIn24Hours = False, totalBuys = 0, totalTransfersIn = 0\<rparr>"

definition countTx :: "activity_acc \<Rightarrow> processed_tx \<Rightarrow> activity_acc" where
  "countTx a tx =
     a\<lparr>totalBuys := (if pt_category tx = BUY then Suc (totalBuys a) else totalBuys a),
       totalTransfersIn :=
         (if pt_category tx = TRANSFER_IN then Suc (totalTransfersIn a)
          else totalTransfersIn a)\<rparr>"

definition window15 :: "int \<Rightarrow> activity_acc \<Rightarrow> processed_tx \<Rightarrow> activity_acc" where
  "window15 txAge a tx =
     (if txAge \<le> FIFTEEN_MINS_MS \<and> pt_category tx = SELL then a\<lparr>sellsIn15Mins := True\<rparr>
      else a)"

definition window24 :: "int \<Rightarrow> activity_acc \<Rightarrow> processed_tx \<Rightarrow> activity_acc" where
  "window24 txAge a tx =
     (if txAge \<le> TWENTY_FOUR_HOURS_MS then
        (case pt_category tx of
           SELL \<Rightarrow> a\<lparr>sellsIn24Hours := True,
                     sellAmountIn24Hours :=
                       jadd (sellAmountIn24Hours a) (amountOr0 (pt_tx tx))\<rparr>
         | TRANSFER_OUT \<Rightarrow> a\<lparr>transfersOutIn24Hours := True\<rparr>
         | TRANSFER_IN \<Rightarrow> a\<lparr>transfersInIn24Hours := True\<rparr>
         | BUY \<Rightarrow> a\<lparr>buysIn24Hours := True\<rparr>
         | LEGACY \<Rightarrow> a)
      else a)"

text \<open>
  The single pass over the wallet's transactions: a transfer without timestamp is
  counted and then skipped (\<open>continue\<close>); the pass stops (\<open>break\<close>) at the first sale
  inside the 15-minute window.
\<close>

fun scanTxs :: "int \<Rightarrow> activity_acc \<Rightarrow> processed_tx list \<Rightarrow> activity_acc" where
  "scanTxs now a [] = a"
| "scanTxs now a (tx # rest) =
     (let a1 = countTx a tx in
      case tr_timestamp (pt_tx tx) of
        None \<Rightarrow> scanTxs now a1 rest
      | Some t \<Rightarrow>
          let txAge = now - t;
              a2 = window15 txAge a1 tx;
              a3 = window24 txAge a2 tx
          in if sellsIn15Mins a3 then a3 else scanTxs now a3 rest)"

text \<open>The literal \<open>0.05\<close>: the double nearest to one twentieth.\<close>

definition fivePercent :: jsnum where
  "fivePercent = roundRat (5 / 100)"

definition hasSignificantSell :: "jsnum \<Rightarrow> jsnum \<Rightarrow> bool" where
  "hasSignificantSell totalAcquired sellAmount =
     (if jless (Num 0) totalAcquired
      then jless fivePercent (jdiv sellAmount totalAcquired)
      else jless (Num 0) sellAmount)"

definition statusOf :: "jsnum \<Rightarrow> activity_acc \<Rightarrow> activity_status" where
  "statusOf totalAcquired a =
     (if sellsIn15Mins a then SELLING
      else if sellsIn24Hours a \<and> hasSignificantSell totalAcquired (sellAmountIn24Hours a)
        then SOLD
      else if transfersOutIn24Hours a then TRANSFERRED
      else if transfersInIn24Hours a then RECEIVED
      else if buysIn24Hours a then
        (if totalBuys a = 1 \<and> totalTransfersIn a = 0 then FIRST_BUY else BOUGHT_MORE)
      else HOLDING)"

text \<open>
  \<open>getActivityStatus(walletAddress, currentBalance)\<close>, with the component's props
  (\<open>wallets\<close>, \<open>transactions\<close>) and the clock (\<open>Date.now()\<close>) as parameters. Only the
  \<open>status\<close> field of the returned object is modelled; \<open>FIRST_BUY\<close> is the status the
  source spells \<open>'BUY'\<close>.
\<close>

definition getActivityStatus ::
  "wallet list \<Rightarrow> transfer list \<Rightarrow> int \<Rightarrow> string \<Rightarrow> jsnum option \<Rightarrow> activity_status" where
  "getActivityStatus wallets transactions now walletAddress currentBalance =
     (if (case currentBalance of None \<Rightarrow> True | Some b \<Rightarrow> jle b (Num 0)) then OUT
      else
        let walletTxs = getWalletTransactions_table wallets transactions walletAddress;
            walletStats = mapGet (walletTransactionsMap wallets transactions)
                            (toLowerCase walletAddress)
        in if walletTxs = [] then UNKNOWN
           else
             let a = scanTxs now initAcc walletTxs;
                 totalAcquired = orZero (map_option totalBought walletStats)
             in statusOf totalAcquired a)"

text \<open>
  Vocabulary for stating the rules over the transfer list itself: a transfer is inside
  a window when it has a timestamp and its age is at most the window.
\<close>

definition inWindow :: "int \<Rightarrow> int \<Rightarrow> processed_tx \<Rightarrow> bool" where
  "inWindow now win tx =
     (case tr_timestamp (pt_tx tx) of None \<Rightarrow> False | Some t \<Rightarrow> now - t \<le> win)"

definition hasRecent :: "int \<Rightarrow> int \<Rightarrow> tx_type \<Rightarrow> processed_tx list \<Rightarrow> bool" where
  "hasRecent now win c txs = list_ex (\<lambda>tx. pt_category tx = c \<and> inWindow now win tx) txs"

text \<open>
  The sums are taken as the code takes them: from 0, adding the amounts one after the
  other in list order, each addition rounded to a double.
\<close>

definition sumFrom :: "jsnum \<Rightarrow> jsnum list \<Rightarrow> jsnum" where
  "sumFrom start amounts = foldl jadd start amounts"

definition sellAmounts24 :: "int \<Rightarrow> processed_tx list \<Rightarrow> jsnum list" where
  "sellAmounts24 now txs =
     map (\<lambda>tx. amountOr0 (pt_tx tx))
       (filter (\<lambda>tx. pt_category tx = SELL \<and> inWindow now TWENTY_FOUR_HOURS_MS tx) txs)"

definition sellAmount24 :: "int \<Rightarrow> processed_tx list \<Rightarrow> jsnum" where
  "sellAmount24 now txs = sumFrom (Num 0) (sellAmounts24 now txs)"

definition categoryTotal :: "tx_type \<Rightarrow> processed_tx list \<Rightarrow> jsnum" where
  "categoryTotal c txs =
     sumFrom (Num 0) (map (\<lambda>tx. amountOr0 (pt_tx tx)) (filter (\<lambda>tx. pt_category tx = c) txs))"

definition categoryCount :: "tx_type \<Rightarrow> processed_tx list \<Rightarrow> nat" where
  "categoryCount c txs = length (filter (\<lambda>tx. pt_category tx = c) txs)"

text \<open>The rules below \<open>SOLD\<close>, read off the transfer list.\<close>

definition lowerRules :: "int \<Rightarrow> processed_tx list \<Rightarrow> activity_status" where
  "lowerRules now txs =
     (if hasRecent now TWENTY_FOUR_HOURS_MS TRANSFER_OUT txs then TRANSFERRED
      else if hasRecent now TWENTY_FOUR_HOURS_MS TRANSFER_IN txs then RECEIVED
      else if hasRecent now TWENTY_FOUR_HOURS_MS BUY txs then
        (if categoryCount BUY txs = 1 \<and> categoryCount TRANSFER_IN txs = 0
         then FIRST_BUY else BOUGHT_MORE)
      else HOLDING)"

text \<open>
  The rule for \<open>SOLD\<close> as the specification words it: the amount sold in 24 hours is
  compared with the total of the \<open>ACQUIRE\<close> (\<open>BUY\<close>) transfers alone.
\<close>

definition spec_significant :: "int \<Rightarrow> processed_tx list \<Rightarrow> bool" where
  "spec_significant now txs =
     (if jless (Num 0) (categoryTotal BUY txs)
      then jless fivePercent (jdiv (sellAmount24 now txs) (categoryTotal BUY txs))
      else jless (Num 0) (sellAmount24 now txs))"

text \<open>
  What the map builder maintains for each wallet: \<open>totalBought\<close> is the sum, in list
  order, of the amounts of the \<open>BUY\<close> and of the \<open>TRANSFER_IN\<close> transfers listed for it.
\<close>

definition acquiredTotal :: "processed_tx list \<Rightarrow> jsnum" where
  "acquiredTotal txs =
     sumFrom (Num 0)
       (map (\<lambda>tx. amountOr0 (pt_tx tx))
          (filter (\<lambda>tx. pt_category tx = BUY \<or> pt_category tx = TRANSFER_IN) txs))"

definition statsOk :: "wallet_stats \<Rightarrow> bool" where
  "statsOk d = (totalBought d = acquiredTotal (ws_transactions d))"

text \<open>
  What the pass computes when it never stops early: each flag and counter of the
  accumulator, updated by the corresponding fact about the whole list.
\<close>

definition scanned :: "int \<Rightarrow> activity_acc \<Rightarrow> processed_tx list \<Rightarrow> activity_acc" where
  "scanned now a txs =
     \<lparr>sellsIn15Mins = False,
      sellsIn24Hours = (sellsIn24Hours a \<or> hasRecent now TWENTY_FOUR_HOURS_MS SELL txs),
      sellAmountIn24Hours = sumFrom (sellAmountIn24Hours a) (sellAmounts24 now txs),
      transfersOutIn24Hours =
        (transfersOutIn24Hours a \<or> hasRecent now TWENTY_FOUR_HOURS_MS TRANSFER_OUT txs),
      transfersInIn24Hours =
        (transfersInIn24Hours a \<or> hasRecent now TWENTY_FOUR_HOURS_MS TRANSFER_IN txs),
      buysIn24Hours = (buysIn24Hours a \<or> hasRecent now TWENTY_FOUR_HOURS_MS BUY txs),
      totalBuys = totalBuys a + categoryCount BUY txs,
      totalTransfersIn = totalTransfersIn a + categoryCount TRANSFER_IN txs\<rparr>"

section \<open>Sync cache: \<open>cacheWalletBalances\<close>, \<open>cacheTransactions\<close> (services/solanaApi.js)\<close>

text \<open>
  One account's fetched balance: the watched account's own fields plus what the
  balance fetch adds. \<open>wb_decimals\<close> and \<open>wb_error\<close> are absent on some paths.
\<close>

record wallet_balance = wallet +
  wb_balance :: jsnum
  wb_decimals :: "nat option"
  wb_uiBalance :: jsnum
  wb_error :: "string option"
  wb_lastUpdated :: string

text \<open>A cached balance entry: \<open>{...wallet, previousBalance, balanceHistory, firstSeen, lastUpdated}\<close>.\<close>

record cached_wallet = wallet_balance +
  previousBalance :: "jsnum option"
  balanceHistory :: "(jsnum \<times> string) list"
  firstSeen :: string

record balance_cache_entry =
  bce_wallets :: "cached_wallet list"
  bce_lastSync :: string

record transaction_cache_entry =
  tce_transactions :: "transfer list"
  tce_lastSync :: string
  newestSignature :: "string option"
  oldestSignature :: "string option"

text \<open>
  The three \<open>localStorage\<close> items the merges touch, each a JSON object keyed by token
  mint, read as the object it parses to (an item that is missing or does not parse is
  the empty object, as the \<open>catch\<close> of each getter makes it).
\<close>

record storage =
  balanceCache :: "string \<rightharpoonup> balance_cache_entry"
  transactionCache :: "string \<rightharpoonup> transaction_cache_entry"
  syncState :: "string \<rightharpoonup> (string \<rightharpoonup> string)"

definition KEY_WALLET_BALANCES :: string where
  "KEY_WALLET_BALANCES = ''cwt_cache_balances''"

definition KEY_TRANSACTIONS :: string where
  "KEY_TRANSACTIONS = ''cwt_cache_transactions''"

definition KEY_SYNC_STATE :: string where
  "KEY_SYNC_STATE = ''cwt_cache_sync_state''"

text \<open>
  \<open>localStorage.setItem\<close> can throw (the quota is exceeded, storage is disabled). Each
  saver catches the exception and logs it, so a failed write leaves the item as it was
  and the caller goes on. \<open>canWrite key\<close> tells whether the write of an item succeeds
  during the call.
\<close>

definition saveBalanceCache ::
  "(string \<Rightarrow> bool) \<Rightarrow> (string \<rightharpoonup> balance_cache_entry) \<Rightarrow> storage \<Rightarrow> storage" where
  "saveBalanceCache canWrite cache s =
     (if canWrite KEY_WALLET_BALANCES then s\<lparr>balanceCache := cache\<rparr> else s)"

definition saveTransactionCache ::
  "(string \<Rightarrow> bool) \<Rightarrow> (string \<rightharpoonup> transaction_cache_entry) \<Rightarrow> storage \<Rightarrow> storage" where
  "saveTransactionCache canWrite cache s =
     (if canWrite KEY_TRANSACTIONS then s\<lparr>transactionCache := cache\<rparr> else s)"

definition updateSyncState ::
  "(string \<Rightarrow> bool) \<Rightarrow> string \<Rightarrow> string \<Rightarrow> string \<Rightarrow> storage \<Rightarrow> storage" where
  "updateSyncState canWrite tokenMint dataType timestamp s =
     (let inner = (case syncState s tokenMint of None \<Rightarrow> Map.empty | Some m \<Rightarrow> m)
      in if canWrite KEY_SYNC_STATE
         then s\<lparr>syncState := (syncState s)(tokenMint \<mapsto> inner(dataType \<mapsto> timestamp))\<rparr>
         else s)"

text \<open>\<open>arr.slice(-9)\<close>: the last nine elements.\<close>

definition sliceLast9 :: "'a list \<Rightarrow> 'a list" where
  "sliceLast9 xs = drop (length xs - 9) xs"

text \<open>The body of \<open>walletData.forEach\<close>, on the map keyed by exact address.\<close>

definition mergeWallet ::
  "string \<Rightarrow> (string \<times> cached_wallet) list \<Rightarrow> wallet_balance \<Rightarrow> (string \<times> cached_wallet) list" where
  "mergeWallet now existingMap w =
     (let prev = mapGet existingMap (w_address w)
      in mapSet (w_address w)
           (wallet_balance.extend w
              (cached_wallet.fields
                 (map_option wb_uiBalance prev)
                 (sliceLast9 (case prev of None \<Rightarrow> [] | Some p \<Rightarrow> balanceHistory p)
                    @ [(wb_uiBalance w, now)])
                 (case prev of None \<Rightarrow> now
                  | Some p \<Rightarrow> if firstSeen p = [] then now else firstSeen p))
            \<lparr>wb_lastUpdated := now\<rparr>)
           existingMap)"

text \<open>\<open>new Map(existing.map(w => [w.address, w]))\<close>\<close>

definition existingMapOf :: "cached_wallet list \<Rightarrow> (string \<times> cached_wallet) list" where
  "existingMapOf existing = foldl (\<lambda>m w. mapSet (w_address w) w m) [] existing"

definition existingWallets :: "storage \<Rightarrow> string \<Rightarrow> cached_wallet list" where
  "existingWallets s tokenMint =
     (case balanceCache s tokenMint of None \<Rightarrow> [] | Some e \<Rightarrow> bce_wallets e)"



text \<open>
  \<open>cacheWalletBalances(tokenMint, walletData)\<close> at clock reading \<open>now\<close>: the new storage
  and the returned wallet array (the merged array, whether or not it could be saved).
\<close>

definition cacheWalletBalances ::
  "(string \<Rightarrow> bool) \<Rightarrow> string \<Rightarrow> string \<Rightarrow> wallet_balance list \<Rightarrow> storage
     \<Rightarrow> storage \<times> cached_wallet list" where
  "cacheWalletBalances canWrite now tokenMint walletData s =
     (let existingMap = existingMapOf (existingWallets s tokenMint);
          merged = foldl (mergeWallet now) existingMap walletData;
          entry = \<lparr>bce_wallets = map snd merged, bce_lastSync = now\<rparr>;
          s1 = saveBalanceCache canWrite ((balanceCache s)(tokenMint \<mapsto> entry)) s
      in (updateSyncState canWrite tokenMint ''balances'' now s1, bce_wallets entry))"


text \<open>
  The sort key of the transaction cache: \<open>new Date(tx.timestamp)\<close> as a number, where
  \<open>new Date(null)\<close> is the epoch (the transfers that \<open>getWalletTransactions\<close> builds have
  a timestamp or \<open>null\<close>, never \<open>undefined\<close>). \<open>Array.prototype.sort\<close> is stable, and the comparator
  \<open>new Date(b.timestamp) - new Date(a.timestamp)\<close> orders by descending time, so the
  result is the stable sort by the negated time.
\<close>

definition timeOf :: "transfer \<Rightarrow> int" where
  "timeOf tx = (case tr_timestamp tx of None \<Rightarrow> 0 | Some t \<Rightarrow> t)"

definition sortNewestFirst :: "transfer list \<Rightarrow> transfer list" where
  "sortNewestFirst txs = sort_key (\<lambda>tx. - timeOf tx) txs"

definition existingTransactions :: "storage \<Rightarrow> string \<Rightarrow> transfer list" where
  "existingTransactions s tokenMint =
     (case transactionCache s tokenMint of None \<Rightarrow> [] | Some e \<Rightarrow> tce_transactions e)"

text \<open>\<open>merged[i]?.signature || null\<close>\<close>

definition signatureOrNull :: "transfer option \<Rightarrow> string option" where
  "signatureOrNull t =
     (case t of None \<Rightarrow> None
      | Some tx \<Rightarrow> if tr_signature tx = [] then None else Some (tr_signature tx))"

record cache_result =
  added :: nat
  total :: nat

text \<open>
  \<open>cacheTransactions(tokenMint, newTransactions)\<close> at clock reading \<open>now\<close>: the new
  storage and the returned counts (computed from the merged list, whether or not it
  could be saved).
\<close>

definition cacheTransactions ::
  "(string \<Rightarrow> bool) \<Rightarrow> string \<Rightarrow> string \<Rightarrow> transfer list \<Rightarrow> storage
     \<Rightarrow> storage \<times> cache_result" where
  "cacheTransactions canWrite now tokenMint newTransactions s =
     (let existing = existingTransactions s tokenMint;
          existingSignatures = set (map tr_signature existing);
          uniqueNew = filter (\<lambda>tx. tr_signature tx \<notin> existingSignatures) newTransactions;
          merged = sortNewestFirst (uniqueNew @ existing);
          entry = \<lparr>tce_transactions = merged, tce_lastSync = now,
                   newestSignature =
                     signatureOrNull (if merged = [] then None else Some (hd merged)),
                   oldestSignature =
                     signatureOrNull (if merged = [] then None else Some (last merged))\<rparr>;
          s1 = saveTransactionCache canWrite ((transactionCache s)(tokenMint \<mapsto> entry)) s
      in (updateSyncState canWrite tokenMint ''transactions'' now s1,
          \<lparr>added = length uniqueNew, total = length merged\<rparr>))"

section \<open>Watch set: \<open>addWallets\<close> (the wallet-tracker hook)\<close>

text \<open>
  The state updater of \<open>addWallets\<close>: the new watch set from the previous one and the
  imported batch. (\<open>saveWallets\<close> then persists exactly this list.)
\<close>

definition addWallets :: "wallet list \<Rightarrow> wallet list \<Rightarrow> wallet list" where
  "addWallets prev newWallets =
     (let existingAddresses = set (map (\<lambda>w. toLowerCase (w_address w)) prev);
          uniqueNew = filter (\<lambda>w. toLowerCase (w_address w) \<notin> existingAddresses) newWallets
      in prev @ uniqueNew)"

text \<open>The uniqueness invariant of the watch set.\<close>

definition uniqueAddresses :: "wallet list \<Rightarrow> bool" where
  "uniqueAddresses ws = distinct (map (\<lambda>w. toLowerCase (w_address w)) ws)"

section \<open>Ledger gateway: \<open>batchGetBalances\<close>, \<open>fetchBalancesBatchHelius\<close> (services/solanaApi.js)\<close>

subsection \<open>Address validation\<close>

text \<open>\<open>isValidAddress\<close>: the trimmed string matches \<open>/^[1-9A-HJ-NP-Za-km-z]{32,44}$/\<close>.\<close>

definition base58Alphabet :: string where
  "base58Alphabet = ''123456789ABCDEFGHJKLMNPQRSTUVWXYZabcdefghijkmnopqrstuvwxyz''"

definition isBase58 :: "char \<Rightarrow> bool" where
  "isBase58 c = (c \<in> set base58Alphabet)"

definition isValidAddress :: "string \<Rightarrow> bool" where
  "isValidAddress address =
     (let trimmed = trim address
      in 32 \<le> length trimmed \<and> length trimmed \<le> 44 \<and> list_all isBase58 trimmed)"

subsection \<open>The remote side\<close>

text \<open>
  The remote side is a parameter. For the DAS endpoint, \<open>heliusFetch apiKey address\<close>
  is what \<open>fetch\<close> followed by \<open>response.json()\<close> gives for that owner: an exception
  with its message (\<open>HeliusError\<close>: the network fails, the body is not JSON), a body
  with the (possibly empty) \<open>result.items\<close> array (\<open>HeliusItems\<close>), or a body without
  \<open>result\<close> (\<open>HeliusErrorBody\<close>: the provider answers a request it could not serve, for
  instance a rate-limited one or one with a bad key, with a JSON-RPC error object and
  its message; \<open>fetch\<close> does not throw on such an answer). For the
  plain RPC path, \<open>tokenAccounts address mint\<close> is what the \<open>try\<close> block of
  \<open>getTokenBalance\<close> obtains: the raw amount and decimals of each token account, or an
  exception (from the key constructors, the RPC call or the reading of its answer) with
  its message, if it has one. \<open>memoized address mint\<close> is the entry of the in-memory
  response cache that is still fresh, if any. \<open>clock address\<close> is the time read when
  that account's result object is built.
\<close>

record asset =
  a_id :: "string option"
  a_mint :: "string option"
  a_balance :: "jsnum option"
  a_decimals :: "nat option"

datatype helius_response =
  HeliusError string | HeliusItems "asset list" | HeliusErrorBody string

record balance_value =
  bv_balance :: jsnum
  bv_decimals :: nat
  bv_uiBalance :: jsnum
  bv_error :: "string option"

datatype settled = Fulfilled balance_value | Rejected "string option"

datatype rpc_answer = RpcError "string option" | RpcAccounts "(int \<times> nat) list"

record remote =
  heliusFetch :: "string \<Rightarrow> string \<Rightarrow> helius_response"
  tokenAccounts :: "string \<Rightarrow> string \<Rightarrow> rpc_answer"
  memoized :: "string \<Rightarrow> string \<Rightarrow> balance_value option"
  clock :: "string \<Rightarrow> string"

definition HELIUS_batchSize :: nat where
  "HELIUS_batchSize = 5"

definition BATCH_SIZE :: "bool \<Rightarrow> nat" where
  "BATCH_SIZE hasApiKey = (if hasApiKey then HELIUS_batchSize else 3)"

text \<open>\<open>assets.find(a => a.id?.toLowerCase() === mint || a.token_info?.mint?.toLowerCase() === mint)\<close>\<close>

definition isTokenAsset :: "string \<Rightarrow> asset \<Rightarrow> bool" where
  "isTokenAsset tokenMint a =
     ((case a_id a of None \<Rightarrow> False | Some i \<Rightarrow> toLowerCase i = toLowerCase tokenMint) \<or>
      (case a_mint a of None \<Rightarrow> False | Some i \<Rightarrow> toLowerCase i = toLowerCase tokenMint))"

text \<open>\<open>d || 9\<close> on the decimals.\<close>

definition natOr9 :: "nat option \<Rightarrow> nat" where
  "natOr9 x = (case x of None \<Rightarrow> 9 | Some d \<Rightarrow> if d = 0 then 9 else d)"

text \<open>
  The per-wallet body of \<open>fetchBalancesBatchHelius\<close>, with its \<open>try\<close>/\<open>catch\<close>: the
  \<open>catch\<close> branch keeps the wallet's fields, zeroes the balance and sets \<open>error\<close>. The
  assets are \<open>data.result?.items || []\<close>, so a body without \<open>result\<close> is read as a wallet
  that holds nothing.
\<close>

definition assetResult :: "remote \<Rightarrow> string \<Rightarrow> wallet \<Rightarrow> asset list \<Rightarrow> wallet_balance" where
  "assetResult env tokenMint w assets =
     (case find (isTokenAsset tokenMint) assets of
        Some tokenAsset \<Rightarrow>
          wallet.extend (w\<lparr>w_id := w_address w\<rparr>)
            (wallet_balance.fields
               (orZero (a_balance tokenAsset))
               (Some (natOr9 (a_decimals tokenAsset)))
               (jdiv (orZero (a_balance tokenAsset)) (pow10 (natOr9 (a_decimals tokenAsset))))
               None
               (clock env (w_address w)))
      | None \<Rightarrow>
          wallet.extend (w\<lparr>w_id := w_address w\<rparr>)
            (wallet_balance.fields (Num 0) (Some 9) (Num 0) None (clock env (w_address w))))"

definition heliusResult :: "remote \<Rightarrow> string \<Rightarrow> string \<Rightarrow> wallet \<Rightarrow> wallet_balance" where
  "heliusResult env apiKey tokenMint w =
     (case heliusFetch env apiKey (w_address w) of
        HeliusError message \<Rightarrow>
          wallet.extend (w\<lparr>w_id := w_address w\<rparr>)
            (wallet_balance.fields (Num 0) None (Num 0) (Some message)
               (clock env (w_address w)))
      | HeliusItems assets \<Rightarrow> assetResult env tokenMint w assets
      | HeliusErrorBody message \<Rightarrow> assetResult env tokenMint w [])"

definition fetchBalancesBatchHelius ::
  "remote \<Rightarrow> string \<Rightarrow> wallet list \<Rightarrow> string \<Rightarrow> wallet_balance list" where
  "fetchBalancesBatchHelius env apiKey wallets tokenMint =
     map (heliusResult env apiKey tokenMint) wallets"

text \<open>
  \<open>getTokenBalance\<close>, as the way its promise settles. The loop over the token accounts
  adds the amounts (\<open>Number\<close> of each digit string, as doubles) and keeps the last account's
  decimals. The \<open>catch\<close> returns an
  object with \<open>error: error.message || 'RPC request failed'\<close>, so the promise is
  fulfilled on every path. (The write to the in-memory cache is not modelled: \<open>memoized\<close>
  stands for its content at the time of the call.)
\<close>

definition errorValue :: "string \<Rightarrow> balance_value" where
  "errorValue message =
     \<lparr>bv_balance = Num 0, bv_decimals = 9, bv_uiBalance = Num 0, bv_error = Some message\<rparr>"

definition sumAccounts :: "(int \<times> nat) list \<Rightarrow> balance_value" where
  "sumAccounts accounts =
     (if accounts = []
      then \<lparr>bv_balance = Num 0, bv_decimals = 9, bv_uiBalance = Num 0, bv_error = None\<rparr>
      else
        let totalBalance = foldl jadd (Num 0) (map (\<lambda>a. numberOfDigits (fst a)) accounts);
            decimals = snd (last accounts)
        in \<lparr>bv_balance = totalBalance, bv_decimals = decimals,
            bv_uiBalance = jdiv totalBalance (pow10 decimals), bv_error = None\<rparr>)"

definition getTokenBalance :: "remote \<Rightarrow> string \<Rightarrow> string \<Rightarrow> settled" where
  "getTokenBalance env walletAddress tokenMint =
     (if \<not> isValidAddress walletAddress
        then Fulfilled (errorValue ''Invalid wallet address format'')
      else if \<not> isValidAddress tokenMint
        then Fulfilled (errorValue ''Invalid token mint format'')
      else
        (case memoized env walletAddress tokenMint of
           Some cached \<Rightarrow> Fulfilled cached
         | None \<Rightarrow>
             (case tokenAccounts env walletAddress tokenMint of
                RpcAccounts accounts \<Rightarrow> Fulfilled (sumAccounts accounts)
              | RpcError message \<Rightarrow>
                  Fulfilled (errorValue
                    (if truthyStr message then the message else ''RPC request failed'')))))"

text \<open>
  The RPC branch: \<open>Promise.allSettled\<close> over the batch, then one object per settled
  promise, the rejected ones with \<open>error: result.reason?.message\<close>.
\<close>

definition rpcResult :: "remote \<Rightarrow> string \<Rightarrow> wallet \<Rightarrow> wallet_balance" where
  "rpcResult env tokenMint w =
     (case getTokenBalance env (w_address w) tokenMint of
        Fulfilled v \<Rightarrow>
          wallet.extend (w\<lparr>w_id := w_address w\<rparr>)
            (wallet_balance.fields (bv_balance v) (Some (bv_decimals v)) (bv_uiBalance v)
               (bv_error v) (clock env (w_address w)))
      | Rejected reason \<Rightarrow>
          wallet.extend (w\<lparr>w_id := w_address w\<rparr>)
            (wallet_balance.fields (Num 0) None (Num 0) reason (clock env (w_address w))))"

text \<open>What one batch gives: \<open>hasApiKey && apiKey\<close> selects the DAS endpoint.\<close>

definition batchResults ::
  "remote \<Rightarrow> string \<Rightarrow> bool \<Rightarrow> string option \<Rightarrow> wallet list \<Rightarrow> wallet_balance list" where
  "batchResults env tokenMint hasApiKey apiKey batch =
     (if hasApiKey \<and> truthyStr apiKey
      then fetchBalancesBatchHelius env (the apiKey) batch tokenMint
      else map (rpcResult env tokenMint) batch)"

text \<open>
  The batching loop \<open>for (let i = 0; i < wallets.length; i += BATCH_SIZE)\<close>. The pause
  between batches and the progress callback do not change the returned array and are
  left out.
\<close>

function batchLoop ::
  "remote \<Rightarrow> string \<Rightarrow> bool \<Rightarrow> string option \<Rightarrow> wallet list \<Rightarrow> nat \<Rightarrow> wallet_balance list
     \<Rightarrow> wallet_balance list" where
  "batchLoop env tokenMint hasApiKey apiKey wallets i results =
     (if i < length wallets then
        let batch = take (BATCH_SIZE hasApiKey) (drop i wallets)
        in batchLoop env tokenMint hasApiKey apiKey wallets (i + BATCH_SIZE hasApiKey)
             (results @ batchResults env tokenMint hasApiKey apiKey batch)
      else results)"
  by pat_completeness auto
termination
  by (relation "measure (\<lambda>(env, tokenMint, hasApiKey, apiKey, wallets, i, results).
                           length wallets - i)")
     (auto simp: BATCH_SIZE_def HELIUS_batchSize_def)

definition batchGetBalances ::
  "remote \<Rightarrow> wallet list \<Rightarrow> string \<Rightarrow> bool \<Rightarrow> string option \<Rightarrow> wallet_balance list" where
  "batchGetBalances env wallets tokenMint hasApiKey apiKey =
     batchLoop env tokenMint hasApiKey apiKey wallets 0 []"

text \<open>The result the loop owes each wallet, whatever batch it falls in.\<close>

definition resultFor ::
  "remote \<Rightarrow> string \<Rightarrow> bool \<Rightarrow> string option \<Rightarrow> wallet \<Rightarrow> wallet_balance" where
  "resultFor env tokenMint hasApiKey apiKey w =
     (if hasApiKey \<and> truthyStr apiKey then heliusResult env (the apiKey) tokenMint w
      else rpcResult env tokenMint w)"

text \<open>
  Whether fetching an account's balance fails: on the DAS path the request throws or is
  answered with an error body; on the RPC path (for valid addresses and nothing
  memoized) the \<open>try\<close> block throws.
\<close>

definition fetchFails :: "remote \<Rightarrow> string \<Rightarrow> bool \<Rightarrow> string option \<Rightarrow> wallet \<Rightarrow> bool" where
  "fetchFails env tokenMint hasApiKey apiKey w =
     (if hasApiKey \<and> truthyStr apiKey
      then (case heliusFetch env (the apiKey) (w_address w) of
              HeliusError m \<Rightarrow> True | HeliusItems xs \<Rightarrow> False | HeliusErrorBody m \<Rightarrow> True)
      else isValidAddress (w_address w) \<and> isValidAddress tokenMint \<and>
           memoized env (w_address w) tokenMint = None \<and>
           (case tokenAccounts env (w_address w) tokenMint of
              RpcError m \<Rightarrow> True | RpcAccounts xs \<Rightarrow> False))"

text \<open>The failures that reach the code as an exception.\<close>

definition fetchThrows :: "remote \<Rightarrow> string \<Rightarrow> bool \<Rightarrow> string option \<Rightarrow> wallet \<Rightarrow> bool" where
  "fetchThrows env tokenMint hasApiKey apiKey w =
     (if hasApiKey \<and> truthyStr apiKey
      then (case heliusFetch env (the apiKey) (w_address w) of
              HeliusError m \<Rightarrow> True | HeliusItems xs \<Rightarrow> False | HeliusErrorBody m \<Rightarrow> False)
      else isValidAddress (w_address w) \<and> isValidAddress tokenMint \<and>
           memoized env (w_address w) tokenMint = None \<and>
           (case tokenAccounts env (w_address w) tokenMint of
              RpcError m \<Rightarrow> True | RpcAccounts xs \<Rightarrow> False))"

text \<open>Two remote sides that answer alike for one account.\<close>

definition agreeOn :: "remote \<Rightarrow> remote \<Rightarrow> string option \<Rightarrow> string \<Rightarrow> string \<Rightarrow> bool" where
  "agreeOn env env' apiKey tokenMint address =
     ((case apiKey of None \<Rightarrow> True
       | Some k \<Rightarrow> heliusFetch env k address = heliusFetch env' k address) \<and>
      tokenAccounts env address tokenMint = tokenAccounts env' address tokenMint \<and>
      memoized env address tokenMint = memoized env' address tokenMint \<and>
      clock env address = clock env' address)"

section \<open>Ledger gateway: \<open>getWalletTransactions\<close> (services/solanaApi.js)\<close>

text \<open>
  A signature record of \<open>getSignaturesForAddress\<close>: the signature and the block time in
  seconds, which the provider may leave \<open>null\<close>.
\<close>

record sig_info =
  sig_signature :: string
  sig_blockTime :: "nat option"

text \<open>
  The connection is a parameter: \<open>signaturesFor address before\<close> is the page the provider
  returns for that address below the signature \<open>before\<close> (\<open>None\<close> when the call throws);
  \<open>parsedTransaction signature\<close> is the parsed transaction (\<open>None\<close> when the call fails,
  which the code turns into \<open>null\<close>, or when the provider answers \<open>null\<close>);
  \<open>publicKeyOk address\<close> tells whether the \<open>PublicKey\<close> constructor accepts the string.
\<close>

record connection =
  signaturesFor :: "string \<Rightarrow> string option \<Rightarrow> sig_info list option"
  parsedTransaction :: "string \<Rightarrow> raw_tx option"
  publicKeyOk :: "string \<Rightarrow> bool"

definition PARALLEL_BATCH_SIZE :: nat where
  "PARALLEL_BATCH_SIZE = 15"

text \<open>JavaScript truthiness of a block time: \<open>null\<close> and \<open>0\<close> are falsy.\<close>

definition truthyTime :: "nat option \<Rightarrow> bool" where
  "truthyTime bt = (case bt of None \<Rightarrow> False | Some n \<Rightarrow> n \<noteq> 0)"

text \<open>\<open>new Date(blockTime * 1000)\<close> as milliseconds.\<close>

definition blockMs :: "nat option \<Rightarrow> int" where
  "blockMs bt = (case bt of None \<Rightarrow> 0 | Some n \<Rightarrow> int n * 1000)"

text \<open>The object pushed for a matching transaction.\<close>

definition mkTransfer :: "sig_info \<Rightarrow> string \<Rightarrow> token_transfer \<Rightarrow> transfer" where
  "mkTransfer sig walletAddress tt =
     \<lparr>tr_signature = sig_signature sig,
      tr_timestamp = (if truthyTime (sig_blockTime sig) then Some (blockMs (sig_blockTime sig))
                      else None),
      tr_walletAddress = Some walletAddress,
      tr_type = tt_type tt, tr_amount = Some (tt_amount tt), tr_rawAmount = tt_rawAmount tt,
      tr_decimals = tt_decimals tt, tr_toWallet = tt_toWallet tt,
      tr_fromWallet = tt_fromWallet tt, tr_solChange = tt_solChange tt\<rparr>"

text \<open>
  The loop over the results of one parallel batch. The first component of the result
  tells whether the early \<open>return transactions\<close> was taken.
\<close>

fun processResults ::
  "string \<Rightarrow> string \<Rightarrow> nat \<Rightarrow> bool \<Rightarrow> transfer list \<Rightarrow> (sig_info \<times> raw_tx option) list
     \<Rightarrow> bool \<times> transfer list" where
  "processResults walletAddress tokenMint targetCount deepFetch transactions [] =
     (False, transactions)"
| "processResults walletAddress tokenMint targetCount deepFetch transactions ((sig, res) # rest) =
     (case res of
        None \<Rightarrow> processResults walletAddress tokenMint targetCount deepFetch transactions rest
      | Some tx \<Rightarrow>
          (case parseTokenTransfer tx walletAddress tokenMint of
             None \<Rightarrow>
               processResults walletAddress tokenMint targetCount deepFetch transactions rest
           | Some tokenTransfer \<Rightarrow>
               let transactions' = transactions @ [mkTransfer sig walletAddress tokenTransfer]
               in if \<not> deepFetch \<and> length transactions' \<ge> targetCount
                  then (True, transactions')
                  else processResults walletAddress tokenMint targetCount deepFetch
                         transactions' rest))"

text \<open>\<open>knownSignatures ? batch.filter(sig => !knownSignatures.has(sig.signature)) : batch\<close>\<close>

definition filterKnown :: "string set option \<Rightarrow> sig_info list \<Rightarrow> sig_info list" where
  "filterKnown knownSignatures batch =
     (case knownSignatures of
        None \<Rightarrow> batch
      | Some known \<Rightarrow> filter (\<lambda>sig. sig_signature sig \<notin> known) batch)"

text \<open>
  The loop \<open>for (let i = 0; i < signatures.length; i += PARALLEL_BATCH_SIZE)\<close>, on the
  signatures not yet sliced off. The state carries the collected transfers and the log
  of the signatures whose details were requested with \<open>getParsedTransaction\<close>.
\<close>

function processBatches ::
  "connection \<Rightarrow> string \<Rightarrow> string \<Rightarrow> nat \<Rightarrow> bool \<Rightarrow> string set option
     \<Rightarrow> transfer list \<Rightarrow> string list \<Rightarrow> sig_info list
     \<Rightarrow> bool \<times> transfer list \<times> string list" where
  "processBatches conn walletAddress tokenMint targetCount deepFetch knownSignatures
       transactions fetched signatures =
     (if signatures = [] then (False, transactions, fetched)
      else
        let batch = take PARALLEL_BATCH_SIZE signatures;
            filteredBatch = filterKnown knownSignatures batch
        in if filteredBatch = []
           then processBatches conn walletAddress tokenMint targetCount deepFetch knownSignatures
                  transactions fetched (drop PARALLEL_BATCH_SIZE signatures)
           else
             let txResults = map (\<lambda>sig. (sig, parsedTransaction conn (sig_signature sig)))
                               filteredBatch;
                 fetched' = fetched @ map sig_signature filteredBatch
             in (case processResults walletAddress tokenMint targetCount deepFetch
                        transactions txResults of
                   (True, transactions') \<Rightarrow> (True, transactions', fetched')
                 | (False, transactions') \<Rightarrow>
                     processBatches conn walletAddress tokenMint targetCount deepFetch
                       knownSignatures transactions' fetched'
                       (drop PARALLEL_BATCH_SIZE signatures)))"
  by pat_completeness auto
termination
  by (relation "measure (\<lambda>(conn, walletAddress, tokenMint, targetCount, deepFetch,
                           knownSignatures, transactions, fetched, signatures).
                           length signatures)")
     (auto simp: PARALLEL_BATCH_SIZE_def)

text \<open>
  The incremental cut-off at the head of a page. When the page's last signature has a
  block time before \<open>sinceDate\<close>, only the signatures with a block time at or after it
  are kept and the paging stops after this page; \<open>None\<close> is the \<open>break\<close> taken when none
  is kept. Otherwise the page is processed whole.
\<close>

definition cutoff :: "int option \<Rightarrow> sig_info list \<Rightarrow> (sig_info list \<times> bool) option" where
  "cutoff sinceDate signatures =
     (case sinceDate of
        None \<Rightarrow> Some (signatures, False)
      | Some since \<Rightarrow>
          let oldestSigTime = sig_blockTime (last signatures)
          in if truthyTime oldestSigTime \<and> blockMs oldestSigTime < since then
               let newSigs = filter (\<lambda>sig. truthyTime (sig_blockTime sig) \<and>
                                            blockMs (sig_blockTime sig) \<ge> since) signatures
               in if newSigs = [] then None else Some (newSigs, True)
             else Some (signatures, False))"

record fetch_state =
  fs_transactions :: "transfer list"
  fs_lastSignature :: "string option"
  fs_pagesSearched :: nat
  fs_fetched :: "string list"

text \<open>
  How the body of \<open>getWalletTransactions\<close> ends: by an exception, which the outer
  \<open>catch\<close> turns into the empty array, or with the transfers collected.
\<close>

datatype fetch_outcome = Thrown "string list" | Returned "transfer list" "string list"

text \<open>
  The paging loop \<open>while ((pagesSearched < maxPages || deepFetch) && !reachedKnownData)\<close>.
  It is entered with \<open>reachedKnownData = false\<close>, and an iteration that sets the flag is
  the last one, so the flag is not part of the state.
\<close>

function pageLoop ::
  "connection \<Rightarrow> string \<Rightarrow> string \<Rightarrow> nat \<Rightarrow> nat \<Rightarrow> bool \<Rightarrow> int option \<Rightarrow> string set option
     \<Rightarrow> fetch_state \<Rightarrow> fetch_outcome" where
  "pageLoop conn walletAddress tokenMint targetCount maxPages deepFetch sinceDate
       knownSignatures st =
     (if \<not> (fs_pagesSearched st < maxPages \<or> deepFetch)
      then Returned (fs_transactions st) (fs_fetched st)
      else
        (case signaturesFor conn (trim walletAddress)
                (if truthyStr (fs_lastSignature st) then fs_lastSignature st else None) of
           None \<Rightarrow> Thrown (fs_fetched st)
         | Some signatures \<Rightarrow>
             if signatures = [] then Returned (fs_transactions st) (fs_fetched st)
             else
               (case cutoff sinceDate signatures of
                  None \<Rightarrow> Returned (fs_transactions st) (fs_fetched st)
                | Some (sigs, reachedKnownData) \<Rightarrow>
                    (case processBatches conn walletAddress tokenMint targetCount deepFetch
                            knownSignatures (fs_transactions st) (fs_fetched st) sigs of
                       (True, transactions, fetched) \<Rightarrow> Returned transactions fetched
                     | (False, transactions, fetched) \<Rightarrow>
                         let pagesSearched = Suc (fs_pagesSearched st);
                             st' = \<lparr>fs_transactions = transactions,
                                    fs_lastSignature = Some (sig_signature (last sigs)),
                                    fs_pagesSearched = pagesSearched,
                                    fs_fetched = fetched\<rparr>
                         in if deepFetch \<and> pagesSearched \<ge> 15
                              then Returned transactions fetched
                            else if \<not> deepFetch \<and> pagesSearched \<ge> maxPages
                              then Returned transactions fetched
                            else if reachedKnownData then Returned transactions fetched
                            else pageLoop conn walletAddress tokenMint targetCount maxPages
                                   deepFetch sinceDate knownSignatures st'))))"
  by pat_completeness auto
termination
  by (relation "measure (\<lambda>(conn, walletAddress, tokenMint, targetCount, maxPages, deepFetch,
                           sinceDate, knownSignatures, st).
                           (if deepFetch then 15 else maxPages) - fs_pagesSearched st)")
     (auto split: if_splits)

definition initFetch :: fetch_state where
  "initFetch = \<lparr>fs_transactions = [], fs_lastSignature = None, fs_pagesSearched = 0,
                 fs_fetched = []\<rparr>"

text \<open>
  \<open>getWalletTransactions\<close> with its effect on the provider made visible: the outcome of
  the body, then the function itself (the returned array) and the log of the
  transaction details it requested.
\<close>

definition getWalletTransactions_body ::
  "connection \<Rightarrow> string \<Rightarrow> string \<Rightarrow> nat \<Rightarrow> nat \<Rightarrow> bool \<Rightarrow> int option \<Rightarrow> string set option
     \<Rightarrow> fetch_outcome" where
  "getWalletTransactions_body conn walletAddress tokenMint targetCount maxPages deepFetch
       sinceTimestamp knownSignatures =
     (if \<not> isValidAddress walletAddress \<or> \<not> isValidAddress tokenMint then Returned [] []
      else if \<not> publicKeyOk conn (trim walletAddress) then Thrown []
      else pageLoop conn walletAddress tokenMint targetCount maxPages deepFetch sinceTimestamp
             knownSignatures initFetch)"

definition getWalletTransactions ::
  "connection \<Rightarrow> string \<Rightarrow> string \<Rightarrow> nat \<Rightarrow> nat \<Rightarrow> bool \<Rightarrow> int option \<Rightarrow> string set option
     \<Rightarrow> transfer list" where
  "getWalletTransactions conn walletAddress tokenMint targetCount maxPages deepFetch
       sinceTimestamp knownSignatures =
     (case getWalletTransactions_body conn walletAddress tokenMint targetCount maxPages
             deepFetch sinceTimestamp knownSignatures of
        Thrown fetched \<Rightarrow> []
      | Returned transactions fetched \<Rightarrow> transactions)"

definition fetchedSignatures ::
  "connection \<Rightarrow> string \<Rightarrow> string \<Rightarrow> nat \<Rightarrow> nat \<Rightarrow> bool \<Rightarrow> int option \<Rightarrow> string set option
     \<Rightarrow> string list" where
  "fetchedSignatures conn walletAddress tokenMint targetCount maxPages deepFetch
       sinceTimestamp knownSignatures =
     (case getWalletTransactions_body conn walletAddress tokenMint targetCount maxPages
             deepFetch sinceTimestamp knownSignatures of
        Thrown fetched \<Rightarrow> fetched
      | Returned transactions fetched \<Rightarrow> fetched)"

text \<open>
  A page is newest-first when the block times that are known (truthy) do not increase
  along the page; a signature without block time may stand anywhere.
\<close>

definition newestFirstKnown :: "sig_info list \<Rightarrow> bool" where
  "newestFirstKnown page =
     sorted_wrt (\<lambda>a b. a \<ge> b)
       (map (\<lambda>sig. blockMs (sig_blockTime sig))
          (filter (\<lambda>sig. truthyTime (sig_blockTime sig)) page))"

text \<open>The last signature of a page, the one the cut-off reads, carries a block time.\<close>

definition lastTimed :: "sig_info list \<Rightarrow> bool" where
  "lastTimed page = (page = [] \<or> truthyTime (sig_blockTime (last page)))"

section \<open>Concrete inputs\<close>

text \<open>
  The addresses are 32-byte keys of the ledger (the vote program, the wrapped native
  mint, the token program and the stake program), so that the \<open>PublicKey\<close> constructor
  accepts each of them.
\<close>

definition ex_wallet :: string where
  "ex_wallet = ''Vote111111111111111111111111111111111111111''"

definition ex_mint :: string where
  "ex_mint = ''So11111111111111111111111111111111111111112''"

definition ex_other :: string where
  "ex_other = ''TokenkegQfeZyiNwAJbNbGKPFXCWuBvf9Ss623VQ5DA''"

text \<open>
  A wallet that sends 400 raw units of the token and whose lamport balance rises by
  exactly 1000000 (0.001 SOL), and one that receives 400 units and pays 20000000
  lamports (0.02 SOL).
\<close>

definition tokenEntry :: "string \<Rightarrow> int \<Rightarrow> token_balance" where
  "tokenEntry owner amount =
     \<lparr>tb_mint = Some ex_mint, tb_owner = Some owner, tb_amount = Some amount,
      tb_decimals = Some 6\<rparr>"

definition ex_txOut :: raw_tx where
  "ex_txOut =
     \<lparr>preTokenBalances = [tokenEntry ex_wallet 500, tokenEntry ex_other 0],
      postTokenBalances = [tokenEntry ex_wallet 100, tokenEntry ex_other 400],
      accountKeys = [ex_other, ex_wallet],
      preBalances = [7000000, 5000000],
      postBalances = [7000000, 6000000]\<rparr>"

definition ex_txIn :: raw_tx where
  "ex_txIn =
     \<lparr>preTokenBalances = [tokenEntry ex_wallet 100, tokenEntry ex_other 400],
      postTokenBalances = [tokenEntry ex_wallet 500, tokenEntry ex_other 0],
      accountKeys = [ex_wallet, ex_other],
      preBalances = [50000000, 7000000],
      postBalances = [30000000, 7000000]\<rparr>"

text \<open>
  A wallet that holds the token in two token accounts, so that each balance table
  lists it twice: the first account goes from 500 to 0, the second from 100 to 200, and
  the wallet receives 2000000 lamports (0.002 SOL). And a wallet whose single account
  goes from 9007199254740993 raw units to 9007199254740992, receiving the same payment.
\<close>

definition ex_txTwoAccounts :: raw_tx where
  "ex_txTwoAccounts =
     \<lparr>preTokenBalances = [tokenEntry ex_wallet 500, tokenEntry ex_wallet 100],
      postTokenBalances = [tokenEntry ex_wallet 0, tokenEntry ex_wallet 200],
      accountKeys = [ex_wallet],
      preBalances = [5000000],
      postBalances = [7000000]\<rparr>"

definition ex_txLarge :: raw_tx where
  "ex_txLarge =
     \<lparr>preTokenBalances = [tokenEntry ex_wallet 9007199254740993],
      postTokenBalances = [tokenEntry ex_wallet 9007199254740992],
      accountKeys = [ex_wallet],
      preBalances = [5000000],
      postBalances = [7000000]\<rparr>"

text \<open>
  A storage that holds, for \<open>ex_mint\<close>, one wallet with a full history of ten balances,
  and entries in both caches for a second asset \<open>ex_mintB\<close>; an incoming balance
  for the cached wallet; and the two ways the writes of a call can go: all succeed,
  or all fail (the quota is exceeded).
\<close>

definition ex_mintB :: string where
  "ex_mintB = ''Stake11111111111111111111111111111111111111''"

definition ex_t0 :: string where
  "ex_t0 = ''2024-01-01T00:00:00.000Z''"

definition ex_t1 :: string where
  "ex_t1 = ''2024-01-02T00:00:00.000Z''"

definition ex_cached :: cached_wallet where
  "ex_cached =
     \<lparr>w_id = ex_wallet, w_name = ''alpha'', w_address = ex_wallet, w_group = ''PREM'',
      wb_balance = Num 5000000, wb_decimals = Some 6, wb_uiBalance = Num 5, wb_error = None,
      wb_lastUpdated = ex_t0, previousBalance = Some (Num 4),
      balanceHistory = map (\<lambda>n. (Num (of_nat n), ex_t0)) [1, 2, 3, 4, 5, 6, 7, 8, 9, 10],
      firstSeen = ex_t0\<rparr>"

definition ex_cachedB :: cached_wallet where
  "ex_cachedB = ex_cached\<lparr>wb_uiBalance := Num 9\<rparr>"

definition ex_incoming :: wallet_balance where
  "ex_incoming =
     \<lparr>w_id = ex_wallet, w_name = ''alpha'', w_address = ex_wallet, w_group = ''PREM'',
      wb_balance = Num 7000000, wb_decimals = Some 6, wb_uiBalance = Num 7, wb_error = None,
      wb_lastUpdated = ex_t1\<rparr>"

definition ex_transfer :: "string \<Rightarrow> int \<Rightarrow> transfer" where
  "ex_transfer signature time =
     \<lparr>tr_signature = signature, tr_timestamp = Some time, tr_walletAddress = Some ex_wallet,
      tr_type = BUY, tr_amount = Some (Num 1), tr_rawAmount = Num 1000000, tr_decimals = 6,
      tr_toWallet = None, tr_fromWallet = None, tr_solChange = 0\<rparr>"

definition ex_balancesB :: balance_cache_entry where
  "ex_balancesB = \<lparr>bce_wallets = [ex_cachedB], bce_lastSync = ex_t0\<rparr>"

definition ex_transfersB :: transaction_cache_entry where
  "ex_transfersB =
     \<lparr>tce_transactions = [ex_transfer ''sigB'' 1000], tce_lastSync = ex_t0,
      newestSignature = Some ''sigB'', oldestSignature = Some ''sigB''\<rparr>"

definition ex_storage :: storage where
  "ex_storage =
     \<lparr>balanceCache =
        [ex_mint \<mapsto> \<lparr>bce_wallets = [ex_cached], bce_lastSync = ex_t0\<rparr>,
         ex_mintB \<mapsto> ex_balancesB],
      transactionCache = [ex_mintB \<mapsto> ex_transfersB],
      syncState = Map.empty\<rparr>"

definition ex_writeOk :: "string \<Rightarrow> bool" where
  "ex_writeOk key = True"

definition ex_writeFails :: "string \<Rightarrow> bool" where
  "ex_writeFails key = False"

text \<open>An imported batch that lists one address twice, the second time in lower case.\<close>

definition ex_w1 :: wallet where
  "ex_w1 = \<lparr>w_id = ''id-1'', w_name = ''Wallet 1'', w_address = ex_wallet, w_group = ''''\<rparr>"

definition ex_w2 :: wallet where
  "ex_w2 = \<lparr>w_id = ''id-2'', w_name = ''Wallet 2'', w_address = toLowerCase ex_wallet,
            w_group = ''''\<rparr>"

text \<open>
  Two watched accounts and two remote sides: on the first the DAS request for the
  second account throws, on the second it is answered with an error body (the request
  was rate limited); both answer alike for the first account. On the RPC path the
  second reports the same failure for the second account as an exception.
\<close>

definition ex_w3 :: wallet where
  "ex_w3 = \<lparr>w_id = ''id-3'', w_name = ''Wallet 3'', w_address = ex_other, w_group = ''WIC''\<rparr>"

definition ex_asset :: asset where
  "ex_asset = \<lparr>a_id = Some ex_mint, a_mint = None, a_balance = Some (Num 7000000),
               a_decimals = Some 6\<rparr>"

definition ex_remote :: remote where
  "ex_remote =
     \<lparr>heliusFetch = (\<lambda>k a. if a = ex_other then HeliusError ''timeout''
                             else HeliusItems [ex_asset]),
      tokenAccounts = (\<lambda>a m. RpcAccounts []),
      memoized = (\<lambda>a m. None),
      clock = (\<lambda>a. ex_t1)\<rparr>"

definition ex_remoteBody :: remote where
  "ex_remoteBody =
     \<lparr>heliusFetch = (\<lambda>k a. if a = ex_other then HeliusErrorBody ''Too many requests''
                             else HeliusItems [ex_asset]),
      tokenAccounts = (\<lambda>a m. if a = ex_other then RpcError (Some ''Too many requests'')
                              else RpcAccounts [(7000000, 6)]),
      memoized = (\<lambda>a m. None),
      clock = (\<lambda>a. ex_t1)\<rparr>"

text \<open>
  A history of one wallet: a purchase of 100 two days before \<open>ex_now\<close>, a transfer in of
  1000 two hours before and a sale of 10 one hour before. And a second one: a transfer
  in of 6 two hours before and two sales, of 0.1 and of 0.2, inside the last hour.
\<close>

definition ex_now :: int where
  "ex_now = 1000000000"

definition ex_history :: "transfer list" where
  "ex_history =
     [(ex_transfer ''sig1'' (ex_now - 172800000))\<lparr>tr_type := BUY, tr_amount := Some (Num 100)\<rparr>,
      (ex_transfer ''sig2'' (ex_now - 7200000))
         \<lparr>tr_type := TRANSFER_IN, tr_amount := Some (Num 1000)\<rparr>,
      (ex_transfer ''sig3'' (ex_now - 3600000))\<lparr>tr_type := SELL, tr_amount := Some (Num 10)\<rparr>]"

definition ex_walletTxs :: "processed_tx list" where
  "ex_walletTxs = getWalletTransactions_table [ex_w1] ex_history ex_wallet"

definition ex_historySold :: "transfer list" where
  "ex_historySold =
     [(ex_transfer ''sig4'' (ex_now - 7200000))
         \<lparr>tr_type := TRANSFER_IN, tr_amount := Some (Num 6)\<rparr>,
      (ex_transfer ''sig5'' (ex_now - 3600000))
         \<lparr>tr_type := SELL, tr_amount := Some (roundRat (1 / 10))\<rparr>,
      (ex_transfer ''sig6'' (ex_now - 3000000))
         \<lparr>tr_type := SELL, tr_amount := Some (roundRat (2 / 10))\<rparr>]"

definition ex_walletTxsSold :: "processed_tx list" where
  "ex_walletTxsSold = getWalletTransactions_table [ex_w1] ex_historySold ex_wallet"

text \<open>
  A provider with a single page of four signatures, newest first, the second without
  block time, whose transactions all show the wallet receiving tokens; and one whose
  page ends with a signature that has no block time. The key constructor accepts the
  wallet's address.
\<close>

definition ex_sig :: "string \<Rightarrow> nat option \<Rightarrow> sig_info" where
  "ex_sig signature blockTime = \<lparr>sig_signature = signature, sig_blockTime = blockTime\<rparr>"

definition ex_page :: "sig_info list" where
  "ex_page =
     [ex_sig ''sigK'' (Some 300), ex_sig ''sigU'' None, ex_sig ''sigA'' (Some 200),
      ex_sig ''sigB'' (Some 50)]"

definition ex_conn :: connection where
  "ex_conn =
     \<lparr>signaturesFor = (\<lambda>address before. case before of None \<Rightarrow> Some ex_page
                                         | Some b \<Rightarrow> Some []),
      parsedTransaction = (\<lambda>signature. Some ex_txIn),
      publicKeyOk = (\<lambda>address. address = ex_wallet)\<rparr>"

definition ex_pageNull :: "sig_info list" where
  "ex_pageNull = [ex_sig ''sigA'' (Some 50), ex_sig ''sigB'' (Some 40), ex_sig ''sigC'' None]"

definition ex_connNull :: connection where
  "ex_connNull =
     \<lparr>signaturesFor = (\<lambda>address before. case before of None \<Rightarrow> Some ex_pageNull
                                         | Some b \<Rightarrow> Some []),
      parsedTransaction = (\<lambda>signature. Some ex_txIn),
      publicKeyOk = (\<lambda>address. address = ex_wallet)\<rparr>"

section \<open>Properties of the numbers\<close>

text \<open>
  Well-known values of double arithmetic, as the model computes them: the double
  nearest to 0.1; \<open>0.1 + 0.2\<close>, which is \<open>0.30000000000000004\<close> and not the double nearest
  to 0.3; \<open>(0.1 + 0.2) / 6\<close>, which is above the double \<open>0.05\<close>; integers up to \<open>2^53\<close> are
  exact and \<open>2^53 + 1\<close> is not.
\<close>

lemma roundRat_examples:
  "roundRat (1 / 10) = Num (3602879701896397 / 36028797018963968) \<and>
   jadd (roundRat (1 / 10)) (roundRat (2 / 10)) = Num (1351079888211149 / 4503599627370496) \<and>
   roundRat (3 / 10) = Num (5404319552844595 / 18014398509481984) \<and>
   jdiv (jadd (roundRat (1 / 10)) (roundRat (2 / 10))) (Num 6)
     = Num (7205759403792795 / 144115188075855872) \<and>
   fivePercent = Num (3602879701896397 / 72057594037927936) \<and>
   numberOfDigits 9007199254740992 = Num 9007199254740992 \<and>
   numberOfDigits 9007199254740993 = Num 9007199254740992 \<and>
   numberOfDigits 9007199254740995 = Num 9007199254740996 \<and>
   pow10 6 = Num 1000000 \<and>
   jdiv (Num 1) (Num 0) = PInf \<and> jsub PInf PInf = NaN \<and> orZero (Some NaN) = Num 0"
  by code_simp

section \<open>Properties of the classifier\<close>

lemma jsub_zero: "jsub (Num 0) (Num 0) = Num 0"
  by (simp add: jsub_def roundRat_def)

lemma jless_irrefl: "\<not> jless x x"
  by (cases x) simp_all

lemma jless_asym: "jless x y \<Longrightarrow> \<not> jless y x"
  by (cases x; cases y) simp_all

lemma preStep_unfound:
  "\<not> foundMint (preStep w m st bal) \<Longrightarrow>
     preStep w m st bal = st"
  by (auto simp: preStep_def Let_def split: if_splits)

lemma postStep_unfound:
  "\<not> foundMint (postStep w m st bal) \<Longrightarrow>
     postStep w m st bal = st"
  by (auto simp: postStep_def Let_def split: if_splits)

lemma preStep_keeps_found: "foundMint st \<Longrightarrow> foundMint (preStep w m st bal)"
  by (auto simp: preStep_def Let_def)

lemma postStep_keeps_found: "foundMint st \<Longrightarrow> foundMint (postStep w m st bal)"
  by (auto simp: postStep_def Let_def)

lemma foldl_preStep_found: "foundMint st \<Longrightarrow> foundMint (foldl (preStep w m) st bs)"
  by (induction bs arbitrary: st) (auto simp: preStep_keeps_found)

lemma foldl_postStep_found: "foundMint st \<Longrightarrow> foundMint (foldl (postStep w m) st bs)"
  by (induction bs arbitrary: st) (auto simp: postStep_keeps_found)

lemma foldl_preStep_unfound:
  "\<not> foundMint (foldl (preStep w m) st bs) \<Longrightarrow> foldl (preStep w m) st bs = st"
proof (induction bs arbitrary: st)
  case Nil
  then show ?case by simp
next
  case (Cons b bs)
  have nf: "\<not> foundMint (preStep w m st b)"
    using Cons.prems foldl_preStep_found [of "preStep w m st b" w m bs] by auto
  then show ?case
    using Cons.IH [of "preStep w m st b"] Cons.prems preStep_unfound [OF nf] by simp
qed

lemma foldl_postStep_unfound:
  "\<not> foundMint (foldl (postStep w m) st bs) \<Longrightarrow> foldl (postStep w m) st bs = st"
proof (induction bs arbitrary: st)
  case Nil
  then show ?case by simp
next
  case (Cons b bs)
  have nf: "\<not> foundMint (postStep w m st b)"
    using Cons.prems foldl_postStep_found [of "postStep w m st b" w m bs] by auto
  then show ?case
    using Cons.IH [of "postStep w m st b"] Cons.prems postStep_unfound [OF nf] by simp
qed

lemma scanBalances_unfound:
  assumes "\<not> foundMint (scanBalances tx w m)"
  shows "scanBalances tx w m = initScan"
proof -
  let ?mid = "foldl (preStep (trim w) (trim m)) initScan (preTokenBalances tx)"
  have a: "foldl (postStep (trim w) (trim m)) ?mid (postTokenBalances tx) = ?mid"
    using assms foldl_postStep_unfound unfolding scanBalances_def by blast
  then have "\<not> foundMint ?mid"
    using assms unfolding scanBalances_def by simp
  then have "?mid = initScan"
    by (rule foldl_preStep_unfound)
  with a show ?thesis unfolding scanBalances_def by simp
qed

lemma tokenChange_nonzero_found:
  assumes "tokenChange tx w m \<noteq> Num 0"
  shows "foundMint (scanBalances tx w m)"
proof (rule ccontr)
  assume "\<not> foundMint (scanBalances tx w m)"
  then have "scanBalances tx w m = initScan" by (rule scanBalances_unfound)
  then have "tokenChange tx w m = Num 0" by (simp add: tokenChange_def initScan_def jsub_zero)
  with assms show False by simp
qed

lemma tokenChange_nonzero_nonempty:
  assumes "tokenChange tx w m \<noteq> Num 0"
  shows "\<not> (preTokenBalances tx = [] \<and> postTokenBalances tx = [])"
proof
  assume "preTokenBalances tx = [] \<and> postTokenBalances tx = []"
  then have "scanBalances tx w m = initScan" by (simp add: scanBalances_def)
  then have "tokenChange tx w m = Num 0" by (simp add: tokenChange_def initScan_def jsub_zero)
  with assms show False by simp
qed

subsection \<open>The delta the classifier works with\<close>

lemma preStep_amounts:
  "preAmount (preStep (trim w) (trim m) st bal) =
     (if ownedBy w m bal then amountOf bal else preAmount st) \<and>
   postAmount (preStep (trim w) (trim m) st bal) = postAmount st"
  by (simp add: preStep_def ownedBy_def Let_def)

lemma postStep_amounts:
  "postAmount (postStep (trim w) (trim m) st bal) =
     (if ownedBy w m bal then amountOf bal else postAmount st) \<and>
   preAmount (postStep (trim w) (trim m) st bal) = preAmount st"
  by (simp add: postStep_def ownedBy_def Let_def)

lemma foldl_preStep_amounts:
  "preAmount (foldl (preStep (trim w) (trim m)) st rows) =
     (case rev (filter (ownedBy w m) rows) of [] \<Rightarrow> preAmount st | bal # earlier \<Rightarrow> amountOf bal) \<and>
   postAmount (foldl (preStep (trim w) (trim m)) st rows) = postAmount st"
  by (induction rows rule: rev_induct) (simp_all add: preStep_amounts)

lemma foldl_postStep_amounts:
  "postAmount (foldl (postStep (trim w) (trim m)) st rows) =
     (case rev (filter (ownedBy w m) rows) of [] \<Rightarrow> postAmount st | bal # earlier \<Rightarrow> amountOf bal) \<and>
   preAmount (foldl (postStep (trim w) (trim m)) st rows) = preAmount st"
  by (induction rows rule: rev_induct) (simp_all add: postStep_amounts)

lemma tokenChange_entryDelta: "tokenChange tx w m = entryDelta tx w m"
proof -
  let ?mid = "foldl (preStep (trim w) (trim m)) initScan (preTokenBalances tx)"
  have pre: "preAmount ?mid = lastAmount w m (preTokenBalances tx)"
    unfolding lastAmount_def using foldl_preStep_amounts [of w m initScan "preTokenBalances tx"]
    by (auto simp: initScan_def split: list.splits)
  have mid: "postAmount ?mid = Num 0"
    using foldl_preStep_amounts [of w m initScan "preTokenBalances tx"]
    by (simp add: initScan_def)
  have post: "postAmount (scanBalances tx w m) = lastAmount w m (postTokenBalances tx)"
    unfolding lastAmount_def scanBalances_def
    using foldl_postStep_amounts [of w m ?mid "postTokenBalances tx"] mid
    by (auto split: list.splits)
  have pre': "preAmount (scanBalances tx w m) = lastAmount w m (preTokenBalances tx)"
    unfolding scanBalances_def
    using foldl_postStep_amounts [of w m ?mid "postTokenBalances tx"] pre
    by simp
  show ?thesis
    by (simp add: tokenChange_def entryDelta_def Let_def post pre')
qed

text \<open>
  What the classifier does for every transaction, in terms of the delta it works with
  (the amount of the wallet's last entry in the post-balance table minus the amount of
  its last entry in the pre-balance table, as doubles): a negative delta gives a
  transfer of type \<open>SELL\<close> exactly when the wallet's native delta, in SOL, is strictly
  greater than 0.001 and \<open>TRANSFER_OUT\<close> exactly when it is not; a positive delta gives
  \<open>BUY\<close> exactly when the native delta is strictly less than -0.01 and \<open>TRANSFER_IN\<close>
  exactly when it is not. At a native delta of exactly 1000000 lamports (0.001 SOL) a
  negative delta is classified \<open>TRANSFER_OUT\<close>.
\<close>

lemma parseTokenTransfer_by_entries:
  "(jless (entryDelta tx w m) (Num 0) \<longrightarrow>
      (\<exists>r. parseTokenTransfer tx w m = Some r \<and>
           (tt_type r = SELL \<longleftrightarrow> solChangeInSol tx w > 0.001) \<and>
           (tt_type r = TRANSFER_OUT \<longleftrightarrow> \<not> solChangeInSol tx w > 0.001))) \<and>
   (jless (Num 0) (entryDelta tx w m) \<longrightarrow>
      (\<exists>r. parseTokenTransfer tx w m = Some r \<and>
           (tt_type r = BUY \<longleftrightarrow> solChangeInSol tx w < - 0.01) \<and>
           (tt_type r = TRANSFER_IN \<longleftrightarrow> \<not> solChangeInSol tx w < - 0.01))) \<and>
   (jless (entryDelta tx w m) (Num 0) \<and> solChange tx w = 1000000 \<longrightarrow>
      (\<exists>r. parseTokenTransfer tx w m = Some r \<and> tt_type r = TRANSFER_OUT))"
proof (intro conjI impI)
  assume neg: "jless (entryDelta tx w m) (Num 0)"
  then have neg': "jless (tokenChange tx w m) (Num 0)" by (simp add: tokenChange_entryDelta)
  then have nz: "tokenChange tx w m \<noteq> Num 0" using jless_irrefl [of "Num 0"] by auto
  show "\<exists>r. parseTokenTransfer tx w m = Some r \<and>
           (tt_type r = SELL \<longleftrightarrow> solChangeInSol tx w > 0.001) \<and>
           (tt_type r = TRANSFER_OUT \<longleftrightarrow> \<not> solChangeInSol tx w > 0.001)"
    using neg' nz tokenChange_nonzero_found [OF nz] tokenChange_nonzero_nonempty [OF nz]
    by (auto simp: parseTokenTransfer_def tokenChange_def Let_def)
next
  assume pos: "jless (Num 0) (entryDelta tx w m)"
  then have pos': "jless (Num 0) (tokenChange tx w m)" by (simp add: tokenChange_entryDelta)
  then have nz: "tokenChange tx w m \<noteq> Num 0" using jless_irrefl [of "Num 0"] by auto
  have nn: "\<not> jless (tokenChange tx w m) (Num 0)" using pos' by (rule jless_asym)
  show "\<exists>r. parseTokenTransfer tx w m = Some r \<and>
           (tt_type r = BUY \<longleftrightarrow> solChangeInSol tx w < - 0.01) \<and>
           (tt_type r = TRANSFER_IN \<longleftrightarrow> \<not> solChangeInSol tx w < - 0.01)"
    using nn nz tokenChange_nonzero_found [OF nz] tokenChange_nonzero_nonempty [OF nz]
    by (auto simp: parseTokenTransfer_def tokenChange_def Let_def)
next
  assume b: "jless (entryDelta tx w m) (Num 0) \<and> solChange tx w = 1000000"
  then have neg': "jless (tokenChange tx w m) (Num 0)" by (simp add: tokenChange_entryDelta)
  then have nz: "tokenChange tx w m \<noteq> Num 0" using jless_irrefl [of "Num 0"] by auto
  show "\<exists>r. parseTokenTransfer tx w m = Some r \<and> tt_type r = TRANSFER_OUT"
    using b neg' nz tokenChange_nonzero_found [OF nz] tokenChange_nonzero_nonempty [OF nz]
    by (auto simp: parseTokenTransfer_def tokenChange_def Let_def solChangeInSol_def)
qed

lemma parseTokenTransfer_examples:
  "entryDelta ex_txOut ex_wallet ex_mint = Num (- 400) \<and> solChange ex_txOut ex_wallet = 1000000 \<and>
   map_option tt_type (parseTokenTransfer ex_txOut ex_wallet ex_mint) = Some TRANSFER_OUT \<and>
   entryDelta ex_txIn ex_wallet ex_mint = Num 400 \<and> solChange ex_txIn ex_wallet = - 20000000 \<and>
   map_option tt_type (parseTokenTransfer ex_txIn ex_wallet ex_mint) = Some BUY \<and>
   map_option tt_amount (parseTokenTransfer ex_txIn ex_wallet ex_mint) = Some (roundRat (4 / 10000))"
  by code_simp

text \<open>
  Claim C1. The claim is about the watched wallet's token balance delta. A wallet can
  hold the asset in more than one token account, and the balance tables of a
  transaction then list it once per account. In the transaction \<open>ex_txTwoAccounts\<close> the
  wallet's balance falls by 400 (from 600 to 200) and it receives 0.002 SOL, more than
  0.001: the claim makes this a \<open>SELL\<close>. The classifier keeps, from each table, only the
  last entry of the wallet (100 before, 200 after), takes the delta to be +100 and
  returns a \<open>TRANSFER_IN\<close> of 100 raw units.
\<close>

theorem parseTokenTransfer_two_accounts:
  "walletDelta ex_txTwoAccounts ex_wallet ex_mint = - 400 \<and>
   solChange ex_txTwoAccounts ex_wallet = 2000000 \<and>
   solChangeInSol ex_txTwoAccounts ex_wallet > 0.001 \<and>
   entryDelta ex_txTwoAccounts ex_wallet ex_mint = Num 100 \<and>
   map_option tt_type (parseTokenTransfer ex_txTwoAccounts ex_wallet ex_mint) = Some TRANSFER_IN \<and>
   map_option tt_rawAmount (parseTokenTransfer ex_txTwoAccounts ex_wallet ex_mint) = Some (Num 100)"
  by code_simp

text \<open>
  The amounts are read with \<open>Number\<close>: above \<open>2^53\<close> two different raw amounts can become
  the same double. In \<open>ex_txLarge\<close> the wallet's balance falls by one raw unit and it is
  paid 0.002 SOL, yet the classifier sees no change and returns \<open>null\<close>.
\<close>

lemma parseTokenTransfer_large_amounts:
  "walletDelta ex_txLarge ex_wallet ex_mint = - 1 \<and>
   solChange ex_txLarge ex_wallet = 2000000 \<and>
   entryDelta ex_txLarge ex_wallet ex_mint = Num 0 \<and>
   parseTokenTransfer ex_txLarge ex_wallet ex_mint = None"
  by code_simp

section \<open>Properties of the status deriver\<close>

lemma statsOk_empty: "statsOk emptyStats"
  by (simp add: statsOk_def emptyStats_def acquiredTotal_def sumFrom_def)

lemma statsOk_addToStats: "statsOk d \<Longrightarrow> statsOk (addToStats tracked d tx)"
  by (cases "categoryOf tracked tx")
     (simp_all add: statsOk_def addToStats_def Let_def acquiredTotal_def sumFrom_def)

lemma list_all_mapSet:
  "list_all (\<lambda>(k, v). P v) m \<Longrightarrow> P v \<Longrightarrow> list_all (\<lambda>(k, v). P v) (mapSet k v m)"
  by (induction m) auto

lemma mapGet_list_all:
  "list_all (\<lambda>(k, v). P v) m \<Longrightarrow> mapGet m k = Some d \<Longrightarrow> P d"
  by (induction m) (auto simp: mapGet_def split: if_splits)

lemma statsOk_addTx:
  assumes "list_all (\<lambda>(k, v). statsOk v) m"
  shows "list_all (\<lambda>(k, v). statsOk v) (addTx tracked m tx)"
proof (cases "truthyStr (tr_walletAddress tx)")
  case False
  then show ?thesis using assms by (simp add: addTx_def)
next
  case True
  let ?key = "toLowerCase (the (tr_walletAddress tx))"
  let ?wd = "case mapGet m ?key of None \<Rightarrow> emptyStats | Some d \<Rightarrow> d"
  have "statsOk ?wd"
    using mapGet_list_all [OF assms, of ?key] statsOk_empty
    by (cases "mapGet m ?key") simp_all
  then have "statsOk (addToStats tracked ?wd tx)" by (rule statsOk_addToStats)
  then show ?thesis
    using True list_all_mapSet [OF assms, of "addToStats tracked ?wd tx" ?key]
    by (simp add: addTx_def Let_def)
qed

lemma statsOk_foldl:
  "list_all (\<lambda>(k, v). statsOk v) m \<Longrightarrow>
     list_all (\<lambda>(k, v). statsOk v) (foldl (addTx tracked) m txs)"
  by (induction txs arbitrary: m) (simp_all add: statsOk_addTx)

lemma walletStats_ok:
  "mapGet (walletTransactionsMap wallets transactions) k = Some d \<Longrightarrow> statsOk d"
  using statsOk_foldl [of "[]" "trackedAddresses wallets" transactions]
  by (auto simp: walletTransactionsMap_def dest: mapGet_list_all [rotated])


lemma scanned_Nil: "\<not> sellsIn15Mins a \<Longrightarrow> scanned now a [] = a"
  by (simp add: scanned_def hasRecent_def sellAmounts24_def sumFrom_def categoryCount_def)

lemma step_no_sell:
  assumes "\<not> sellsIn15Mins a" 
    and "\<not> (pt_category tx = SELL \<and> inWindow now FIFTEEN_MINS_MS tx)"
    and "tr_timestamp (pt_tx tx) = Some t"
  shows "\<not> sellsIn15Mins (window24 (now - t) (window15 (now - t) (countTx a tx) tx) tx)"
  using assms
  by (cases "pt_category tx") (auto simp: window24_def window15_def countTx_def inWindow_def)

lemma scanned_Cons_None:
  "tr_timestamp (pt_tx tx) = None \<Longrightarrow> scanned now (countTx a tx) rest = scanned now a (tx # rest)"
  by (simp add: scanned_def countTx_def hasRecent_def inWindow_def sellAmounts24_def
      sumFrom_def categoryCount_def)

lemma scanned_Cons_Some:
  "tr_timestamp (pt_tx tx) = Some t \<Longrightarrow>
     scanned now (window24 (now - t) (window15 (now - t) (countTx a tx) tx) tx) rest
       = scanned now a (tx # rest)"
  by (cases "pt_category tx")
     (auto simp: scanned_def countTx_def hasRecent_def inWindow_def sellAmounts24_def
      sumFrom_def categoryCount_def window24_def window15_def)

lemma scanTxs_no_recent_sell:
  "\<not> hasRecent now FIFTEEN_MINS_MS SELL txs \<Longrightarrow> \<not> sellsIn15Mins a \<Longrightarrow>
     scanTxs now a txs = scanned now a txs"
proof (induction txs arbitrary: a)
  case Nil
  then show ?case by (simp add: scanned_Nil)
next
  case (Cons tx rest)
  have rest: "\<not> hasRecent now FIFTEEN_MINS_MS SELL rest"
    and here: "\<not> (pt_category tx = SELL \<and> inWindow now FIFTEEN_MINS_MS tx)"
    using Cons.prems(1) by (auto simp: hasRecent_def)
  show ?case
  proof (cases "tr_timestamp (pt_tx tx)")
    case None
    have "\<not> sellsIn15Mins (countTx a tx)" using Cons.prems(2) by (simp add: countTx_def)
    then have "scanTxs now (countTx a tx) rest = scanned now (countTx a tx) rest"
      using Cons.IH [OF rest] by simp
    then show ?thesis using None by (simp add: Let_def scanned_Cons_None)
  next
    case (Some t)
    let ?a3 = "window24 (now - t) (window15 (now - t) (countTx a tx) tx) tx"
    have n3: "\<not> sellsIn15Mins ?a3" using step_no_sell [OF Cons.prems(2) here Some] .
    then have "scanTxs now ?a3 rest = scanned now ?a3 rest"
      using Cons.IH [OF rest] by simp
    then show ?thesis using Some n3 by (simp add: Let_def scanned_Cons_Some)
  qed
qed

lemma hasRecent_nonempty: "hasRecent now win c txs \<Longrightarrow> txs \<noteq> []"
  by (auto simp: hasRecent_def)

lemma positive_not_out: "jless (Num 0) b \<Longrightarrow> \<not> jle b (Num 0)"
  by (cases b) simp_all

lemma hasSignificantSell_orZero:
  "hasSignificantSell (orZero (Some x)) sold = hasSignificantSell x sold"
  by (cases x) (simp_all add: orZero_def hasSignificantSell_def)

lemma getActivityStatus_unfold:
  assumes "jless (Num 0) b"
    and "walletTxs = getWalletTransactions_table wallets transactions walletAddress"
    and "walletTxs \<noteq> []"
  shows "getActivityStatus wallets transactions now walletAddress (Some b) =
           statusOf (orZero (Some (acquiredTotal walletTxs))) (scanTxs now initAcc walletTxs)"
proof -
  let ?k = "toLowerCase walletAddress"
  obtain d where d: "mapGet (walletTransactionsMap wallets transactions) ?k = Some d"
    using assms(2,3) by (cases "mapGet (walletTransactionsMap wallets transactions) ?k")
      (simp_all add: getWalletTransactions_table_def)
  have txs: "walletTxs = ws_transactions d"
    using assms(2) d by (simp add: getWalletTransactions_table_def)
  have "totalBought d = acquiredTotal walletTxs"
    using walletStats_ok [OF d] by (simp add: statsOk_def txs)
  then show ?thesis
    using positive_not_out [OF assms(1)] assms(3) d txs
    by (simp add: getActivityStatus_def getWalletTransactions_table_def Let_def)
qed

lemma statusOf_scanned:
  "statusOf (orZero (Some acquired)) (scanned now initAcc txs) =
     (if hasRecent now TWENTY_FOUR_HOURS_MS SELL txs \<and>
         hasSignificantSell acquired (sellAmount24 now txs)
      then SOLD else lowerRules now txs)"
  by (simp add: statusOf_def scanned_def initAcc_def lowerRules_def sellAmount24_def
      hasSignificantSell_orZero)

lemma lowerRules_not_higher: "lowerRules now txs \<noteq> SOLD \<and> lowerRules now txs \<noteq> SELLING"
  by (simp add: lowerRules_def)

lemma getActivityStatus_no_recent_sell:
  assumes "jless (Num 0) b"
    and "walletTxs = getWalletTransactions_table wallets transactions walletAddress"
    and "hasRecent now TWENTY_FOUR_HOURS_MS SELL walletTxs"
    and "\<not> hasRecent now FIFTEEN_MINS_MS SELL walletTxs"
  shows "getActivityStatus wallets transactions now walletAddress (Some b) =
           (if hasSignificantSell (acquiredTotal walletTxs) (sellAmount24 now walletTxs)
            then SOLD else lowerRules now walletTxs)"
proof -
  have ne: "walletTxs \<noteq> []" using assms(3) by (rule hasRecent_nonempty)
  have "getActivityStatus wallets transactions now walletAddress (Some b) =
          statusOf (orZero (Some (acquiredTotal walletTxs))) (scanned now initAcc walletTxs)"
    using getActivityStatus_unfold [OF assms(1,2) ne, of now]
      scanTxs_no_recent_sell [OF assms(4), of initAcc]
    by (simp add: initAcc_def)
  then show ?thesis
    using assms(3) by (simp add: statusOf_scanned)
qed


text \<open>
  Claim C2, as the code has it. For a wallet with positive balance whose transfers
  include a sale inside the last 24 hours and none inside the last 15 minutes, the
  status is \<open>SOLD\<close> exactly when the amount sold inside the 24 hours exceeds 5% of the
  wallet's acquired total, which counts the \<open>BUY\<close> transfers and the \<open>TRANSFER_IN\<close>
  transfers alike, or is positive when that total is not positive. The comparison is
  the code's: the two sums are accumulated in list order as doubles, and the amount
  sold divided by the acquired total, rounded to a double, is compared with the double
  \<open>0.05\<close>. Otherwise the status is the one the rules below \<open>SOLD\<close> give (\<open>TRANSFERRED\<close>,
  \<open>RECEIVED\<close>, the two buy labels, \<open>HOLDING\<close>, in this order).
\<close>

theorem getActivityStatus_sold_rule:
  assumes "jless (Num 0) b"
    and "walletTxs = getWalletTransactions_table wallets transactions walletAddress"
    and "hasRecent now TWENTY_FOUR_HOURS_MS SELL walletTxs"
    and "\<not> hasRecent now FIFTEEN_MINS_MS SELL walletTxs"
  shows "(getActivityStatus wallets transactions now walletAddress (Some b) = SOLD \<longleftrightarrow>
            (if jless (Num 0) (acquiredTotal walletTxs)
             then jless (roundRat (5 / 100))
                    (jdiv (sellAmount24 now walletTxs) (acquiredTotal walletTxs))
             else jless (Num 0) (sellAmount24 now walletTxs))) \<and>
         (getActivityStatus wallets transactions now walletAddress (Some b) \<noteq> SOLD \<longrightarrow>
            getActivityStatus wallets transactions now walletAddress (Some b)
              = lowerRules now walletTxs)"
  unfolding getActivityStatus_no_recent_sell [OF assms]
  using lowerRules_not_higher [of now walletTxs]
  by (simp add: hasSignificantSell_def fivePercent_def)

theorem getActivityStatus_sold_rule_witness:
  "jless (Num 0) (Num 20) \<and>
   hasRecent ex_now TWENTY_FOUR_HOURS_MS SELL ex_walletTxs \<and>
   \<not> hasRecent ex_now FIFTEEN_MINS_MS SELL ex_walletTxs \<and>
   acquiredTotal ex_walletTxs = Num 1100 \<and> sellAmount24 ex_now ex_walletTxs = Num 10 \<and>
   getActivityStatus [ex_w1] ex_history ex_now ex_wallet (Some (Num 20)) \<noteq> SOLD \<and>
   getActivityStatus [ex_w1] ex_history ex_now ex_wallet (Some (Num 20))
     = lowerRules ex_now ex_walletTxs \<and>
   hasRecent ex_now TWENTY_FOUR_HOURS_MS SELL ex_walletTxsSold \<and>
   \<not> hasRecent ex_now FIFTEEN_MINS_MS SELL ex_walletTxsSold \<and>
   acquiredTotal ex_walletTxsSold = Num 6 \<and>
   sellAmount24 ex_now ex_walletTxsSold = jadd (roundRat (1 / 10)) (roundRat (2 / 10)) \<and>
   getActivityStatus [ex_w1] ex_historySold ex_now ex_wallet (Some (Num 20)) = SOLD"
proof -
  have b: "jless (Num 0) (Num 20)" by simp
  have h1: "hasRecent ex_now TWENTY_FOUR_HOURS_MS SELL ex_walletTxs" by code_simp
  have h2: "\<not> hasRecent ex_now FIFTEEN_MINS_MS SELL ex_walletTxs" by code_simp
  have a: "acquiredTotal ex_walletTxs = Num 1100" by code_simp
  have s: "sellAmount24 ex_now ex_walletTxs = Num 10" by code_simp
  have q: "\<not> jless (roundRat (5 / 100)) (jdiv (Num 10) (Num 1100))" by code_simp
  have g1: "hasRecent ex_now TWENTY_FOUR_HOURS_MS SELL ex_walletTxsSold" by code_simp
  have g2: "\<not> hasRecent ex_now FIFTEEN_MINS_MS SELL ex_walletTxsSold" by code_simp
  have a': "acquiredTotal ex_walletTxsSold = Num 6" by code_simp
  have s': "sellAmount24 ex_now ex_walletTxsSold = jadd (roundRat (1 / 10)) (roundRat (2 / 10))"
    by code_simp
  have q': "jless (roundRat (5 / 100)) (jdiv (jadd (roundRat (1 / 10)) (roundRat (2 / 10))) (Num 6))"
    by code_simp
  show ?thesis
    using getActivityStatus_sold_rule [OF b ex_walletTxs_def h1 h2]
      getActivityStatus_sold_rule [OF b ex_walletTxsSold_def g1 g2] h1 h2 a s q g1 g2 a' s' q'
    by simp
qed

text \<open>
  The claim as worded compares the amount sold with the total of the \<open>ACQUIRE\<close> (\<open>BUY\<close>)
  transfers. On the example history that total is 100 and the amount sold, 10,
  exceeds 5% of it, yet the status is \<open>RECEIVED\<close>, not \<open>SOLD\<close>: the code's total is 1100.
\<close>

theorem getActivityStatus_sold_rule_counterexample:
  "hasRecent ex_now TWENTY_FOUR_HOURS_MS SELL ex_walletTxs \<and>
   \<not> hasRecent ex_now FIFTEEN_MINS_MS SELL ex_walletTxs \<and>
   categoryTotal BUY ex_walletTxs = Num 100 \<and> sellAmount24 ex_now ex_walletTxs = Num 10 \<and>
   spec_significant ex_now ex_walletTxs \<and>
   getActivityStatus [ex_w1] ex_history ex_now ex_wallet (Some (Num 20)) = RECEIVED"
  by code_simp



section \<open>Properties of the sync cache\<close>

subsection \<open>Transfer merge\<close>

lemma sortNewestFirst_idem: "sortNewestFirst (sortNewestFirst xs) = sortNewestFirst xs"
  unfolding sortNewestFirst_def by (rule sort_key_id_if_sorted) simp

lemma length_sortNewestFirst: "length (sortNewestFirst xs) = length xs"
  by (simp add: sortNewestFirst_def)

lemma existingTransactions_after:
  "existingTransactions (fst (cacheTransactions canWrite now m txs s)) m =
     (if canWrite KEY_TRANSACTIONS
      then sortNewestFirst
             (filter (\<lambda>tx. tr_signature tx \<notin> set (map tr_signature (existingTransactions s m))) txs
              @ existingTransactions s m)
      else existingTransactions s m)"
  by (simp add: cacheTransactions_def Let_def existingTransactions_def updateSyncState_def
      saveTransactionCache_def)

lemma total_def2:
  "total (snd (cacheTransactions canWrite now m txs s)) =
     length (filter (\<lambda>tx. tr_signature tx \<notin> set (map tr_signature (existingTransactions s m))) txs)
     + length (existingTransactions s m)"
  by (simp add: cacheTransactions_def Let_def length_sortNewestFirst)

lemma added_def2:
  "added (snd (cacheTransactions canWrite now m txs s)) =
     length (filter (\<lambda>tx. tr_signature tx \<notin> set (map tr_signature (existingTransactions s m))) txs)"
  by (simp add: cacheTransactions_def Let_def)

lemma sigs_covered:
  "canWrite KEY_TRANSACTIONS \<Longrightarrow> tx \<in> set txs \<Longrightarrow>
     tr_signature tx \<in> set (map tr_signature
        (existingTransactions (fst (cacheTransactions canWrite now m txs s)) m))"
  by (auto simp: existingTransactions_after sortNewestFirst_def)

lemma second_unique_empty:
  "canWrite KEY_TRANSACTIONS \<Longrightarrow>
     filter (\<lambda>tx. tr_signature tx \<notin> set (map tr_signature
        (existingTransactions (fst (cacheTransactions canWrite now m txs s)) m))) txs = []"
  using sigs_covered [of canWrite _ txs now m s] by (simp add: filter_empty_conv)

text \<open>
  Claim C4, as the code has it. When the first merge of a list of transfers under an
  asset key could be written to the storage, merging the same list again adds nothing
  (\<open>added = 0\<close>), leaves the total unchanged, and leaves the cached transfer list of that
  key, hence its set of signatures, as the first merge left it, whether or not the
  second write succeeds. The two merges may happen at different times.
\<close>

theorem cacheTransactions_idempotent:
  assumes "canWriteA KEY_TRANSACTIONS"
  shows "(let (s1, r1) = cacheTransactions canWriteA nowA tokenMint txs s;
              (s2, r2) = cacheTransactions canWriteB nowB tokenMint txs s1
          in added r2 = 0 \<and> total r2 = total r1 \<and>
             existingTransactions s2 tokenMint = existingTransactions s1 tokenMint \<and>
             set (map tr_signature (existingTransactions s2 tokenMint)) =
               set (map tr_signature (existingTransactions s1 tokenMint)))"
proof -
  obtain s1 r1 where c1: "cacheTransactions canWriteA nowA tokenMint txs s = (s1, r1)"
    by (cases "cacheTransactions canWriteA nowA tokenMint txs s")
  obtain s2 r2 where c2: "cacheTransactions canWriteB nowB tokenMint txs s1 = (s2, r2)"
    by (cases "cacheTransactions canWriteB nowB tokenMint txs s1")
  have s1: "s1 = fst (cacheTransactions canWriteA nowA tokenMint txs s)"
    and r1: "r1 = snd (cacheTransactions canWriteA nowA tokenMint txs s)"
    using c1 by simp_all
  have s2: "s2 = fst (cacheTransactions canWriteB nowB tokenMint txs s1)"
    and r2: "r2 = snd (cacheTransactions canWriteB nowB tokenMint txs s1)"
    using c2 by simp_all
  have e: "filter (\<lambda>tx. tr_signature tx \<notin> set (map tr_signature (existingTransactions s1 tokenMint))) txs = []"
    unfolding s1 by (rule second_unique_empty [where canWrite = canWriteA, OF assms])
  have a: "added r2 = 0" unfolding r2 added_def2 e by simp
  have sorted1: "sortNewestFirst (existingTransactions s1 tokenMint) = existingTransactions s1 tokenMint"
    unfolding s1 existingTransactions_after using assms by (simp add: sortNewestFirst_idem)
  have ex2: "existingTransactions s2 tokenMint = existingTransactions s1 tokenMint"
    unfolding s2 existingTransactions_after e using sorted1 by simp
  have t1: "total r1 = length (existingTransactions s1 tokenMint)"
    unfolding r1 total_def2 s1 existingTransactions_after using assms
    by (simp add: length_sortNewestFirst)
  have t: "total r2 = total r1"
    unfolding t1 unfolding r2 total_def2 e by simp
  show ?thesis using a t ex2 by (simp add: c1 c2)
qed

theorem cacheTransactions_idempotent_witness:
  "ex_writeOk KEY_TRANSACTIONS \<and>
   added (snd (cacheTransactions ex_writeOk ex_t0 ex_mint [ex_transfer ''sigA'' 2000] ex_storage)) = 1 \<and>
   added (snd (cacheTransactions ex_writeFails ex_t1 ex_mint [ex_transfer ''sigA'' 2000]
     (fst (cacheTransactions ex_writeOk ex_t0 ex_mint [ex_transfer ''sigA'' 2000] ex_storage)))) = 0 \<and>
   total (snd (cacheTransactions ex_writeFails ex_t1 ex_mint [ex_transfer ''sigA'' 2000]
     (fst (cacheTransactions ex_writeOk ex_t0 ex_mint [ex_transfer ''sigA'' 2000] ex_storage)))) = 1 \<and>
   existingTransactions
     (fst (cacheTransactions ex_writeFails ex_t1 ex_mint [ex_transfer ''sigA'' 2000]
       (fst (cacheTransactions ex_writeOk ex_t0 ex_mint [ex_transfer ''sigA'' 2000] ex_storage))))
     ex_mint = [ex_transfer ''sigA'' 2000]"
proof -
  have w: "ex_writeOk KEY_TRANSACTIONS" by (simp add: ex_writeOk_def)
  have f: "added (snd (cacheTransactions ex_writeOk ex_t0 ex_mint [ex_transfer ''sigA'' 2000]
             ex_storage)) = 1"
    by code_simp
  have t: "total (snd (cacheTransactions ex_writeOk ex_t0 ex_mint [ex_transfer ''sigA'' 2000]
             ex_storage)) = 1"
    by code_simp
  have e: "existingTransactions
             (fst (cacheTransactions ex_writeOk ex_t0 ex_mint [ex_transfer ''sigA'' 2000] ex_storage))
             ex_mint = [ex_transfer ''sigA'' 2000]"
    by code_simp
  show ?thesis
    using cacheTransactions_idempotent [where canWriteA = ex_writeOk and canWriteB = ex_writeFails
        and nowA = ex_t0 and nowB = ex_t1 and tokenMint = ex_mint
        and txs = "[ex_transfer ''sigA'' 2000]" and s = ex_storage, OF w] w f t e
    by (simp add: split_def Let_def)
qed

text \<open>
  The claim as worded holds for every merge. The saver catches a failed write and the
  merge goes on: when the first merge cannot be written (here the quota is exceeded),
  it still reports one added transfer, nothing is stored, and the second merge of the
  same list reports one added transfer again.
\<close>

theorem cacheTransactions_idempotent_counterexample:
  "added (snd (cacheTransactions ex_writeFails ex_t0 ex_mint [ex_transfer ''sigA'' 2000]
     ex_storage)) = 1 \<and>
   existingTransactions
     (fst (cacheTransactions ex_writeFails ex_t0 ex_mint [ex_transfer ''sigA'' 2000] ex_storage))
     ex_mint = [] \<and>
   added (snd (cacheTransactions ex_writeOk ex_t1 ex_mint [ex_transfer ''sigA'' 2000]
     (fst (cacheTransactions ex_writeFails ex_t0 ex_mint [ex_transfer ''sigA'' 2000]
        ex_storage)))) = 1"
  by code_simp

subsection \<open>Balance merge\<close>



















lemma ex_mints_differ: "ex_mint \<noteq> ex_mintB"
  by (simp add: ex_mint_def ex_mintB_def)







subsection \<open>Isolation of asset keys\<close>

text \<open>
  Claim C5. For two distinct asset keys \<open>A\<close> and \<open>B\<close> and any storage, merging balances
  under \<open>A\<close> or merging transfers under \<open>A\<close> leaves what is stored under \<open>B\<close> unchanged:
  the balance entry, the transfer entry and the sync-state entry, whether the writes of
  the merge succeed or fail.
\<close>

theorem cache_merge_isolated:
  assumes "A \<noteq> B"
  shows "balanceCache (fst (cacheWalletBalances canWrite now A walletData s)) B
           = balanceCache s B \<and>
         transactionCache (fst (cacheWalletBalances canWrite now A walletData s)) B
           = transactionCache s B \<and>
         syncState (fst (cacheWalletBalances canWrite now A walletData s)) B = syncState s B \<and>
         balanceCache (fst (cacheTransactions canWrite now A newTransactions s)) B
           = balanceCache s B \<and>
         transactionCache (fst (cacheTransactions canWrite now A newTransactions s)) B
           = transactionCache s B \<and>
         syncState (fst (cacheTransactions canWrite now A newTransactions s)) B = syncState s B"
  using assms
  by (simp add: cacheWalletBalances_def cacheTransactions_def updateSyncState_def Let_def
      saveBalanceCache_def saveTransactionCache_def)

theorem cache_merge_isolated_witness:
  "ex_mint \<noteq> ex_mintB \<and>
   balanceCache (fst (cacheWalletBalances ex_writeOk ex_t1 ex_mint [ex_incoming] ex_storage))
     ex_mintB = Some ex_balancesB \<and>
   transactionCache
     (fst (cacheTransactions ex_writeOk ex_t1 ex_mint [ex_transfer ''sigA'' 2000] ex_storage))
     ex_mintB = Some ex_transfersB"
proof -
  have b: "balanceCache ex_storage ex_mintB = Some ex_balancesB"
    by (simp add: ex_storage_def)
  have t: "transactionCache ex_storage ex_mintB = Some ex_transfersB"
    by (simp add: ex_storage_def)
  show ?thesis
    using cache_merge_isolated [OF ex_mints_differ, of ex_writeOk ex_t1 "[ex_incoming]"
        ex_storage "[ex_transfer ''sigA'' 2000]"] b t ex_mints_differ
    by simp
qed

section \<open>Properties of the batched balance fetch\<close>

lemma batchResults_map:
  "batchResults env tokenMint hasApiKey apiKey batch =
     map (resultFor env tokenMint hasApiKey apiKey) batch"
  by (auto simp: batchResults_def resultFor_def fetchBalancesBatchHelius_def)

declare batchLoop.simps [simp del]

lemma batchLoop_map:
  "batchLoop env tokenMint hasApiKey apiKey wallets i results =
     results @ map (resultFor env tokenMint hasApiKey apiKey) (drop i wallets)"
proof (induction env tokenMint hasApiKey apiKey wallets i results rule: batchLoop.induct)
  case (1 env tokenMint hasApiKey apiKey wallets i results)
  let ?n = "BATCH_SIZE hasApiKey"
  show ?case
  proof (cases "i < length wallets")
    case True
    have split: "take ?n (drop i wallets) @ drop (i + ?n) wallets = drop i wallets"
      using append_take_drop_id [of ?n "drop i wallets"] by (simp add: add.commute)
    have "batchLoop env tokenMint hasApiKey apiKey wallets i results =
            batchLoop env tokenMint hasApiKey apiKey wallets (i + ?n)
              (results @ batchResults env tokenMint hasApiKey apiKey (take ?n (drop i wallets)))"
      using True by (subst batchLoop.simps) (simp add: Let_def)
    also have "\<dots> = (results @ batchResults env tokenMint hasApiKey apiKey (take ?n (drop i wallets)))
                 @ map (resultFor env tokenMint hasApiKey apiKey) (drop (i + ?n) wallets)"
      using "1.IH" [OF True refl] .
    also have "\<dots> = results @ map (resultFor env tokenMint hasApiKey apiKey)
                         (take ?n (drop i wallets) @ drop (i + ?n) wallets)"
      by (simp add: batchResults_map)
    finally show ?thesis by (simp only: split)
  next
    case False
    then show ?thesis by (subst batchLoop.simps) simp
  qed
qed

lemma batchGetBalances_map:
  "batchGetBalances env wallets tokenMint hasApiKey apiKey =
     map (resultFor env tokenMint hasApiKey apiKey) wallets"
  by (simp add: batchGetBalances_def batchLoop_map)

lemma resultFor_address: "w_address (resultFor env tokenMint hasApiKey apiKey w) = w_address w"
  by (simp add: resultFor_def heliusResult_def assetResult_def rpcResult_def wallet.defs
      wallet_balance.defs
      split: helius_response.splits option.splits settled.splits)

lemma resultFor_thrown:
  "fetchThrows env tokenMint hasApiKey apiKey w \<Longrightarrow>
     wb_error (resultFor env tokenMint hasApiKey apiKey w) \<noteq> None \<and>
     wb_balance (resultFor env tokenMint hasApiKey apiKey w) = Num 0 \<and>
     wb_uiBalance (resultFor env tokenMint hasApiKey apiKey w) = Num 0"
  by (auto simp: fetchThrows_def resultFor_def heliusResult_def rpcResult_def getTokenBalance_def
      errorValue_def wallet.defs wallet_balance.defs
      split: helius_response.splits option.splits settled.splits rpc_answer.splits if_splits)

lemma resultFor_error_body:
  "hasApiKey \<Longrightarrow> truthyStr apiKey \<Longrightarrow>
   heliusFetch env (the apiKey) (w_address w) = HeliusErrorBody message \<Longrightarrow>
     wb_error (resultFor env tokenMint hasApiKey apiKey w) = None \<and>
     wb_balance (resultFor env tokenMint hasApiKey apiKey w) = Num 0"
  by (simp add: resultFor_def heliusResult_def assetResult_def wallet.defs wallet_balance.defs)

lemma resultFor_agree:
  "agreeOn env env' apiKey tokenMint (w_address w) \<Longrightarrow>
     resultFor env tokenMint hasApiKey apiKey w = resultFor env' tokenMint hasApiKey apiKey w"
proof -
  assume a: "agreeOn env env' apiKey tokenMint (w_address w)"
  have g: "getTokenBalance env (w_address w) tokenMint = getTokenBalance env' (w_address w) tokenMint"
    using a by (auto simp: agreeOn_def getTokenBalance_def split: option.splits)
  have c: "clock env (w_address w) = clock env' (w_address w)"
    using a by (simp add: agreeOn_def)
  have h: "truthyStr apiKey \<Longrightarrow>
             heliusFetch env (the apiKey) (w_address w) = heliusFetch env' (the apiKey) (w_address w)"
    using a by (cases apiKey) (simp_all add: agreeOn_def)
  show ?thesis
  proof (cases "hasApiKey \<and> truthyStr apiKey")
    case True
    then have h': "heliusFetch env (the apiKey) (w_address w)
                     = heliusFetch env' (the apiKey) (w_address w)"
      using h by simp
    have "heliusResult env (the apiKey) tokenMint w = heliusResult env' (the apiKey) tokenMint w"
      unfolding heliusResult_def assetResult_def h' c by (rule refl)
    with True show ?thesis
      by (auto simp: resultFor_def)
  next
    case False
    have "rpcResult env tokenMint w = rpcResult env' tokenMint w"
      unfolding rpcResult_def g c by (rule refl)
    with False show ?thesis
      by (auto simp: resultFor_def)
  qed
qed

lemma ex_addresses_differ: "ex_wallet \<noteq> ex_other"
  by (simp add: ex_wallet_def ex_other_def)

text \<open>
  What the batched balance fetch does for every list of wallets, on either path: it
  returns (it has no failing branch) exactly one result per input wallet, in input
  order. Where fetching an account's balance throws, that account's result carries an
  \<open>error\<close> field and a zero balance. The result at a position depends only on the remote
  side's answer for that position's account: two remote sides that answer alike for
  one account give the same result for it, whatever they answer (or fail to answer)
  for the other accounts.
\<close>

lemma batchGetBalances_each:
  "length (batchGetBalances env wallets tokenMint hasApiKey apiKey) = length wallets \<and>
   map w_address (batchGetBalances env wallets tokenMint hasApiKey apiKey) = map w_address wallets \<and>
   (\<forall>i < length wallets.
      fetchThrows env tokenMint hasApiKey apiKey (wallets ! i) \<longrightarrow>
        wb_error (batchGetBalances env wallets tokenMint hasApiKey apiKey ! i) \<noteq> None \<and>
        wb_balance (batchGetBalances env wallets tokenMint hasApiKey apiKey ! i) = Num 0) \<and>
   (\<forall>j < length wallets.
      agreeOn env env' apiKey tokenMint (w_address (wallets ! j)) \<longrightarrow>
        batchGetBalances env wallets tokenMint hasApiKey apiKey ! j =
        batchGetBalances env' wallets tokenMint hasApiKey apiKey ! j)"
  by (simp add: batchGetBalances_map resultFor_address resultFor_thrown resultFor_agree comp_def)

lemma batchGetBalances_thrown_example:
  "fetchThrows ex_remote ex_mint True (Some ''key'') ex_w3 \<and>
   map w_address (batchGetBalances ex_remote [ex_w1, ex_w3] ex_mint True (Some ''key''))
     = [ex_wallet, ex_other] \<and>
   map wb_error (batchGetBalances ex_remote [ex_w1, ex_w3] ex_mint True (Some ''key''))
     = [None, Some ''timeout''] \<and>
   map wb_uiBalance (batchGetBalances ex_remote [ex_w1, ex_w3] ex_mint True (Some ''key''))
     = [Num 7, Num 0]"
  by code_simp

text \<open>
  Claim C7. The claim wants a failed balance fetch to show as an \<open>error\<close> field on that
  account's result. On the DAS path a request that the provider could not serve, and
  answered with an error body (here a rate-limited one), is read as a wallet that holds
  nothing: the account's result has a zero balance and no \<open>error\<close> field. The RPC path
  reports the same failure of the same account with an \<open>error\<close> field. In both cases
  there is one result per account and the other account's result is not affected.
\<close>

theorem batchGetBalances_error_body_unreported:
  "fetchFails ex_remoteBody ex_mint True (Some ''key'') ex_w3 \<and>
   heliusFetch ex_remoteBody ''key'' (w_address ex_w3) = HeliusErrorBody ''Too many requests'' \<and>
   map w_address (batchGetBalances ex_remoteBody [ex_w1, ex_w3] ex_mint True (Some ''key''))
     = [ex_wallet, ex_other] \<and>
   map wb_error (batchGetBalances ex_remoteBody [ex_w1, ex_w3] ex_mint True (Some ''key''))
     = [None, None] \<and>
   map wb_uiBalance (batchGetBalances ex_remoteBody [ex_w1, ex_w3] ex_mint True (Some ''key''))
     = [Num 7, Num 0] \<and>
   fetchFails ex_remoteBody ex_mint False None ex_w3 \<and>
   map wb_error (batchGetBalances ex_remoteBody [ex_w1, ex_w3] ex_mint False None)
     = [None, Some ''Too many requests''] \<and>
   map wb_uiBalance (batchGetBalances ex_remoteBody [ex_w1, ex_w3] ex_mint False None)
     = [Num 7, Num 0]"
  by code_simp

section \<open>Properties of the transaction-history fetch\<close>

declare processBatches.simps [simp del]
declare pageLoop.simps [simp del]

subsection \<open>A property of every collected transfer\<close>

lemma processResults_all:
  assumes "\<forall>x\<in>set txs. P x"
    and "\<forall>p\<in>set results. \<forall>tt. P (mkTransfer (fst p) w tt)"
  shows "\<forall>x\<in>set (snd (processResults w m T d txs results)). P x"
  using assms
proof (induction results arbitrary: txs)
  case Nil
  then show ?case by simp
next
  case (Cons p results)
  obtain sig res where p: "p = (sig, res)" by (cases p)
  have rest: "\<forall>q\<in>set results. \<forall>tt. P (mkTransfer (fst q) w tt)"
    using Cons.prems(2) by simp
  have here: "\<forall>tt. P (mkTransfer sig w tt)"
    using Cons.prems(2) by (simp add: p)
  show ?case
  proof (cases res)
    case None
    then show ?thesis using Cons.IH [OF Cons.prems(1) rest] by (simp add: p)
  next
    case (Some tx)
    show ?thesis
    proof (cases "parseTokenTransfer tx w m")
      case None
      then show ?thesis using Some Cons.IH [OF Cons.prems(1) rest] by (simp add: p)
    next
      case (Some tt)
      let ?txs' = "txs @ [mkTransfer sig w tt]"
      have inv: "\<forall>x\<in>set ?txs'. P x" using Cons.prems(1) here by simp
      show ?thesis
        using \<open>res = Some tx\<close> Some inv Cons.IH [OF inv rest]
        by (simp add: p Let_def)
    qed
  qed
qed

lemma filterKnown_take_subset:
  "set (filterKnown known (take n sigs)) \<subseteq> set (filterKnown known sigs)"
  by (cases known) (auto simp: filterKnown_def dest: in_set_takeD)

lemma filterKnown_drop_subset:
  "set (filterKnown known (drop n sigs)) \<subseteq> set (filterKnown known sigs)"
  by (cases known) (auto simp: filterKnown_def dest: in_set_dropD)

lemma processBatches_all:
  assumes "\<forall>x\<in>set txs. P x"
    and "\<forall>s\<in>set (filterKnown known sigs). \<forall>tt. P (mkTransfer s w tt)"
  shows "\<forall>x\<in>set (fst (snd (processBatches conn w m T d known txs fetched sigs))). P x"
  using assms
proof (induction conn w m T d known txs fetched sigs rule: processBatches.induct)
  case (1 conn w m T d known txs fetched sigs)
  let ?batch = "take PARALLEL_BATCH_SIZE sigs"
  let ?fb = "filterKnown known ?batch"
  let ?results = "map (\<lambda>sig. (sig, parsedTransaction conn (sig_signature sig))) ?fb"
  let ?fetched' = "fetched @ map sig_signature ?fb"
  let ?pr = "processResults w m T d txs ?results"
  have dropped: "\<forall>s\<in>set (filterKnown known (drop PARALLEL_BATCH_SIZE sigs)).
                   \<forall>tt. P (mkTransfer s w tt)"
    using "1.prems"(2) filterKnown_drop_subset [of known PARALLEL_BATCH_SIZE sigs] by blast
  have batch: "\<forall>p\<in>set ?results. \<forall>tt. P (mkTransfer (fst p) w tt)"
    using "1.prems"(2) filterKnown_take_subset [of known PARALLEL_BATCH_SIZE sigs] by auto
  have pr: "\<forall>x\<in>set (snd ?pr). P x"
    using processResults_all [OF "1.prems"(1) batch] .
  show ?case
  proof (cases "sigs = []")
    case True
    then show ?thesis using "1.prems"(1) by (subst processBatches.simps) simp
  next
    case nonempty: False
    show ?thesis
    proof (cases "?fb = []")
      case True
      then show ?thesis
        using nonempty "1.IH"(1) [OF nonempty refl refl True "1.prems"(1) dropped]
        by (subst processBatches.simps) (simp add: Let_def)
    next
      case fb: False
      obtain flag txs' where r: "?pr = (flag, txs')" by (cases ?pr)
      have txs': "\<forall>x\<in>set txs'. P x" using pr r by simp
      show ?thesis
      proof (cases flag)
        case True
        then show ?thesis
          using nonempty fb r txs' by (subst processBatches.simps) (simp add: Let_def)
      next
        case False
        then show ?thesis
          using nonempty fb r
            "1.IH"(2) [OF nonempty refl refl fb refl refl r [symmetric, unfolded False] _ txs' dropped]
          by (subst processBatches.simps) (simp add: Let_def)
      qed
    qed
  qed
qed


lemma processBatches_fetched:
  assumes "\<forall>x\<in>set fetched. F x"
    and "\<forall>s\<in>set (filterKnown known sigs). F (sig_signature s)"
  shows "\<forall>x\<in>set (snd (snd (processBatches conn w m T d known txs fetched sigs))). F x"
  using assms
proof (induction conn w m T d known txs fetched sigs rule: processBatches.induct)
  case (1 conn w m T d known txs fetched sigs)
  let ?batch = "take PARALLEL_BATCH_SIZE sigs"
  let ?fb = "filterKnown known ?batch"
  let ?results = "map (\<lambda>sig. (sig, parsedTransaction conn (sig_signature sig))) ?fb"
  let ?fetched' = "fetched @ map sig_signature ?fb"
  let ?pr = "processResults w m T d txs ?results"
  have dropped: "\<forall>s\<in>set (filterKnown known (drop PARALLEL_BATCH_SIZE sigs)).
                   F (sig_signature s)"
    using "1.prems"(2) filterKnown_drop_subset [of known PARALLEL_BATCH_SIZE sigs] by blast
  have fetched': "\<forall>x\<in>set ?fetched'. F x"
    using "1.prems" filterKnown_take_subset [of known PARALLEL_BATCH_SIZE sigs] by auto
  show ?case
  proof (cases "sigs = []")
    case True
    then show ?thesis using "1.prems"(1) by (subst processBatches.simps) simp
  next
    case nonempty: False
    show ?thesis
    proof (cases "?fb = []")
      case True
      then show ?thesis
        using nonempty "1.IH"(1) [OF nonempty refl refl True "1.prems"(1) dropped]
        by (subst processBatches.simps) (simp add: Let_def)
    next
      case fb: False
      obtain flag txs' where r: "?pr = (flag, txs')" by (cases ?pr)
      show ?thesis
      proof (cases flag)
        case True
        then show ?thesis
          using nonempty fb r fetched' by (subst processBatches.simps) (simp add: Let_def)
      next
        case False
        then show ?thesis
          using nonempty fb r
            "1.IH"(2) [OF nonempty refl refl fb refl refl r [symmetric, unfolded False] _ fetched' dropped]
          by (subst processBatches.simps) (simp add: Let_def)
      qed
    qed
  qed
qed

subsection \<open>Invariants of the paging loop\<close>

lemma pageLoop_invariant:
  assumes init: "I (fs_transactions st) (fs_fetched st)"
    and weaken: "\<And>txs f. I txs f \<Longrightarrow> R txs f"
    and step: "\<And>before page sigs r txs f flag txs' f'.
        I txs f \<Longrightarrow> signaturesFor conn (trim w) before = Some page \<Longrightarrow> page \<noteq> [] \<Longrightarrow>
        cutoff since page = Some (sigs, r) \<Longrightarrow>
        processBatches conn w m T d known txs f sigs = (flag, txs', f') \<Longrightarrow>
        (if flag then R txs' f' else I txs' f')"
  shows "case pageLoop conn w m T mp d since known st of
           Thrown f \<Rightarrow> (\<exists>r. R r f)
         | Returned r f \<Rightarrow> R r f"
  using assms
proof (induction conn w m T mp d since known st rule: pageLoop.induct)
  case (1 conn w m T mp d since known st)
  let ?before = "if truthyStr (fs_lastSignature st) then fs_lastSignature st else None"
  note weaken = "1.prems"(2)
  note step = "1.prems"(3)
  note here = weaken [OF "1.prems"(1)]
  show ?case
  proof (cases "fs_pagesSearched st < mp \<or> d")
    case False
    then show ?thesis using here by (subst pageLoop.simps) simp
  next
    case go: True
    show ?thesis
    proof (cases "signaturesFor conn (trim w) ?before")
      case None
      then show ?thesis using go here by (subst pageLoop.simps) auto
    next
      case (Some page)
      show ?thesis
      proof (cases "page = []")
        case True
        then show ?thesis using go Some here by (subst pageLoop.simps) simp
      next
        case ne: False
        show ?thesis
        proof (cases "cutoff since page")
          case None
          then show ?thesis using go Some ne here by (subst pageLoop.simps) simp
        next
          case cut: (Some c)
          obtain sigs r where c: "c = (sigs, r)" by (cases c)
          obtain flag txs' f' where pb:
            "processBatches conn w m T d known (fs_transactions st) (fs_fetched st) sigs
               = (flag, txs', f')"
            by (cases "processBatches conn w m T d known (fs_transactions st) (fs_fetched st) sigs")
          note after = step [OF "1.prems"(1) Some ne cut [unfolded c] pb]
          show ?thesis
          proof (cases flag)
            case True
            then show ?thesis
              using go Some ne cut c pb after by (subst pageLoop.simps) simp
          next
            case False
            let ?st' = "\<lparr>fs_transactions = txs', fs_lastSignature = Some (sig_signature (last sigs)),
                          fs_pagesSearched = Suc (fs_pagesSearched st), fs_fetched = f'\<rparr>"
            have flagF: "flag = False" using False by simp
            have inv': "I (fs_transactions ?st') (fs_fetched ?st')"
              using after False by simp
            show ?thesis
            proof (cases "(d \<and> 15 \<le> Suc (fs_pagesSearched st)) \<or>
                          (\<not> d \<and> mp \<le> Suc (fs_pagesSearched st)) \<or> r")
              case True
              then show ?thesis
                using go Some ne cut c pb False weaken [OF inv']
                by (subst pageLoop.simps) (auto simp: Let_def)
            next
              case more: False
              have ih: "case pageLoop conn w m T mp d since known ?st' of
                          Thrown f \<Rightarrow> (\<exists>r. R r f) | Returned r f \<Rightarrow> R r f"
                using more
                by (intro "1.IH" [OF _ Some ne cut c [symmetric] pb [symmetric] flagF refl refl refl
                      _ _ _ inv' weaken step]) (use go in auto)
              have "pageLoop conn w m T mp d since known st
                      = pageLoop conn w m T mp d since known ?st'"
                using go Some ne cut c pb False more
                by (subst pageLoop.simps) (auto simp: Let_def)
              then show ?thesis using ih by simp
            qed
          qed
        qed
      qed
    qed
  qed
qed


subsection \<open>Known signatures and the since-bound\<close>

lemma mkTransfer_signature: "tr_signature (mkTransfer s w tt) = sig_signature s"
  by (simp add: mkTransfer_def)

lemma filterKnown_Some: "s \<in> set (filterKnown (Some K) sigs) \<Longrightarrow> sig_signature s \<notin> K"
  by (simp add: filterKnown_def)

lemma filterKnown_subset: "set (filterKnown known sigs) \<subseteq> set sigs"
  by (cases known) (auto simp: filterKnown_def)

lemma getWalletTransactions_known:
  "(\<forall>x\<in>set (getWalletTransactions conn w m T mp d since (Some K)). tr_signature x \<notin> K) \<and>
   (\<forall>sg\<in>set (fetchedSignatures conn w m T mp d since (Some K)). sg \<notin> K)"
proof -
  let ?I = "\<lambda>(txs :: transfer list) (f :: string list).
              (\<forall>x\<in>set txs. tr_signature x \<notin> K) \<and> (\<forall>sg\<in>set f. sg \<notin> K)"
  have "case pageLoop conn w m T mp d since (Some K) initFetch of
          Thrown f \<Rightarrow> (\<exists>r :: transfer list. ?I r f) | Returned r f \<Rightarrow> ?I r f"
  proof (rule pageLoop_invariant [where I = ?I and R = ?I and st = initFetch and conn = conn
        and w = w and m = m and T = T and mp = mp and d = d and since = since
        and known = "Some K"])
    show "?I (fs_transactions initFetch) (fs_fetched initFetch)"
      by (simp add: initFetch_def)
  next
    fix txs f assume "?I txs f" then show "?I txs f" .
  next
    fix before page sigs r txs f flag txs' f'
    assume inv: "?I txs f"
      and pb: "processBatches conn w m T d (Some K) txs f sigs = (flag, txs', f')"
    have a: "\<forall>x\<in>set txs'. tr_signature x \<notin> K"
      using processBatches_all [of txs "\<lambda>x. tr_signature x \<notin> K" "Some K" sigs w conn m T d f]
        inv pb by (simp add: mkTransfer_signature filterKnown_Some)
    have b: "\<forall>sg\<in>set f'. sg \<notin> K"
      using processBatches_fetched [of f "\<lambda>sg. sg \<notin> K" "Some K" sigs conn w m T d txs]
        inv pb by (simp add: filterKnown_Some)
    show "if flag then ?I txs' f' else ?I txs' f'" using a b by simp
  qed
  then show ?thesis
    by (auto simp: getWalletTransactions_def fetchedSignatures_def getWalletTransactions_body_def
        split: fetch_outcome.splits)
qed

lemma sorted_last_least:
  "sorted_wrt (\<lambda>a b. f a \<ge> (f b :: int)) xs \<Longrightarrow> s \<in> set xs \<Longrightarrow> f (last xs) \<le> f s"
  by (induction xs) (auto split: if_splits)

lemma last_filter: "xs \<noteq> [] \<Longrightarrow> P (last xs) \<Longrightarrow> last (filter P xs) = last xs"
proof (induction xs)
  case Nil
  then show ?case by simp
next
  case (Cons x xs)
  show ?case
  proof (cases "xs = []")
    case True
    then show ?thesis using Cons.prems by simp
  next
    case False
    then have l: "last (x # xs) = last xs" by simp
    have "last xs \<in> set xs" using False by simp
    then have ne: "filter P xs \<noteq> []"
      using Cons.prems(2) l by (auto simp: filter_empty_conv)
    show ?thesis
      using Cons.IH [OF False] Cons.prems(2) l ne by simp
  qed
qed

lemma cutoff_newestFirstKnown:
  assumes "newestFirstKnown page" and "lastTimed page" and "page \<noteq> []"
    and "cutoff (Some t0) page = Some (sigs, r)"
    and "s \<in> set sigs" and "truthyTime (sig_blockTime s)"
  shows "t0 \<le> blockMs (sig_blockTime s)"
proof (cases "truthyTime (sig_blockTime (last page)) \<and> blockMs (sig_blockTime (last page)) < t0")
  case True
  then have "sigs = filter (\<lambda>sig. truthyTime (sig_blockTime sig) \<and>
                                   blockMs (sig_blockTime sig) \<ge> t0) page"
    using assms(4) by (simp add: cutoff_def Let_def split: if_splits)
  then show ?thesis using assms(5) by simp
next
  case False
  let ?timed = "filter (\<lambda>sig. truthyTime (sig_blockTime sig)) page"
  have sigs: "sigs = page"
    using False assms(4) by (auto simp: cutoff_def Let_def split: if_splits)
  have lt: "truthyTime (sig_blockTime (last page))"
    using assms(2,3) by (simp add: lastTimed_def)
  then have bound: "t0 \<le> blockMs (sig_blockTime (last page))"
    using False by auto
  have l: "last ?timed = last page"
    using last_filter [OF assms(3), of "\<lambda>sig. truthyTime (sig_blockTime sig)"] lt by simp
  have mem: "s \<in> set ?timed" using assms(5,6) sigs by simp
  have "sorted_wrt (\<lambda>a b. blockMs (sig_blockTime a) \<ge> blockMs (sig_blockTime b)) ?timed"
    using assms(1) by (simp add: newestFirstKnown_def sorted_wrt_map)
  then have "blockMs (sig_blockTime (last ?timed)) \<le> blockMs (sig_blockTime s)"
    using mem by (rule sorted_last_least [of "\<lambda>x. blockMs (sig_blockTime x)"])
  then show ?thesis using bound l by simp
qed

lemma getWalletTransactions_since:
  assumes pages: "\<forall>before page. signaturesFor conn (trim w) before = Some page \<longrightarrow>
                    newestFirstKnown page \<and> lastTimed page"
  shows "\<forall>x\<in>set (getWalletTransactions conn w m T mp d (Some t0) known).
           (case tr_timestamp x of None \<Rightarrow> True | Some t \<Rightarrow> t0 \<le> t)"
proof -
  let ?P = "\<lambda>x :: transfer. (case tr_timestamp x of None \<Rightarrow> True | Some t \<Rightarrow> t0 \<le> t)"
  let ?I = "\<lambda>(txs :: transfer list) (f :: string list). \<forall>x\<in>set txs. ?P x"
  have "case pageLoop conn w m T mp d (Some t0) known initFetch of
          Thrown f \<Rightarrow> (\<exists>r :: transfer list. ?I r f) | Returned r f \<Rightarrow> ?I r f"
  proof (rule pageLoop_invariant [where I = ?I and R = ?I and st = initFetch and conn = conn
        and w = w and m = m and T = T and mp = mp and d = d and since = "Some t0"
        and known = known])
    show "?I (fs_transactions initFetch) (fs_fetched initFetch)"
      by (simp add: initFetch_def)
  next
    fix txs f assume "?I txs f" then show "?I txs f" .
  next
    fix before page sigs r txs f flag txs' f'
    assume inv: "?I txs f"
      and page: "signaturesFor conn (trim w) before = Some page" "page \<noteq> []"
      and cut: "cutoff (Some t0) page = Some (sigs, r)"
      and pb: "processBatches conn w m T d known txs f sigs = (flag, txs', f')"
    have nf: "newestFirstKnown page" "lastTimed page" using pages page(1) by blast+
    have "\<forall>s\<in>set (filterKnown known sigs). \<forall>tt. ?P (mkTransfer s w tt)"
      using cutoff_newestFirstKnown [OF nf page(2) cut] filterKnown_subset [of known sigs]
      by (auto simp: mkTransfer_def)
    then have "\<forall>x\<in>set txs'. ?P x"
      using processBatches_all [of txs ?P known sigs w conn m T d f] inv pb by simp
    then show "if flag then ?I txs' f' else ?I txs' f'" by simp
  qed
  then show ?thesis
    by (auto simp: getWalletTransactions_def getWalletTransactions_body_def
        split: fetch_outcome.splits)
qed

text \<open>
  Claim C8, as the code has it. With a known-signature set \<open>K\<close>, no transaction whose
  signature is in \<open>K\<close> is requested from the provider, and none is returned. With a
  since-bound and a provider whose pages are newest-first (the block times that are
  known do not increase along a page) and end with a signature that carries a block
  time, no returned transfer has a timestamp before the bound: a returned transfer
  either has no timestamp (its signature has no block time) or one at or after the
  bound.
\<close>

theorem getWalletTransactions_incremental:
  "((\<forall>x\<in>set (getWalletTransactions conn w m T mp d since (Some K)). tr_signature x \<notin> K) \<and>
    (\<forall>sg\<in>set (fetchedSignatures conn w m T mp d since (Some K)). sg \<notin> K)) \<and>
   ((\<forall>before page. signaturesFor conn (trim w) before = Some page \<longrightarrow>
        newestFirstKnown page \<and> lastTimed page) \<longrightarrow>
    (\<forall>x\<in>set (getWalletTransactions conn w m T mp d (Some t0) known).
       (case tr_timestamp x of None \<Rightarrow> True | Some t \<Rightarrow> t0 \<le> t)))"
  using getWalletTransactions_known [of conn w m T mp d since K]
    getWalletTransactions_since [of conn w m T mp d t0 known]
  by blast

lemma ex_conn_pages:
  "\<forall>before page. signaturesFor ex_conn (trim ex_wallet) before = Some page \<longrightarrow>
     newestFirstKnown page \<and> lastTimed page"
proof (intro allI impI)
  fix before page
  assume a: "signaturesFor ex_conn (trim ex_wallet) before = Some page"
  have p: "newestFirstKnown ex_page \<and> lastTimed ex_page" by code_simp
  have e: "newestFirstKnown [] \<and> lastTimed []" by (simp add: newestFirstKnown_def lastTimed_def)
  show "newestFirstKnown page \<and> lastTimed page"
    using a p e by (cases before) (auto simp: ex_conn_def)
qed

theorem getWalletTransactions_incremental_witness:
  "newestFirstKnown ex_page \<and> lastTimed ex_page \<and>
   map tr_signature
     (getWalletTransactions ex_conn ex_wallet ex_mint 10 1 False (Some 40000) (Some {''sigK''}))
     = [''sigU'', ''sigA'', ''sigB''] \<and>
   map tr_timestamp
     (getWalletTransactions ex_conn ex_wallet ex_mint 10 1 False (Some 40000) (Some {''sigK''}))
     = [None, Some 200000, Some 50000] \<and>
   tr_signature (hd (getWalletTransactions ex_conn ex_wallet ex_mint 10 1 False (Some 40000)
                       (Some {''sigK''}))) \<notin> {''sigK''} \<and>
   40000 \<le> the (tr_timestamp (last (getWalletTransactions ex_conn ex_wallet ex_mint 10 1 False
                                      (Some 40000) (Some {''sigK''})))) \<and>
   fetchedSignatures ex_conn ex_wallet ex_mint 10 1 False (Some 40000) (Some {''sigK''})
     = [''sigU'', ''sigA'', ''sigB''] \<and>
   hd (fetchedSignatures ex_conn ex_wallet ex_mint 10 1 False (Some 40000) (Some {''sigK''}))
     \<notin> {''sigK''} \<and>
   map tr_signature
     (getWalletTransactions ex_conn ex_wallet ex_mint 10 1 False (Some 100000) (Some {''sigK''}))
     = [''sigA'']"
proof -
  let ?r = "getWalletTransactions ex_conn ex_wallet ex_mint 10 1 False (Some 40000)
              (Some {''sigK''})"
  let ?f = "fetchedSignatures ex_conn ex_wallet ex_mint 10 1 False (Some 40000)
              (Some {''sigK''})"
  have p: "newestFirstKnown ex_page \<and> lastTimed ex_page" by code_simp
  have rs: "map tr_signature ?r = [''sigU'', ''sigA'', ''sigB'']" by code_simp
  have rt: "map tr_timestamp ?r = [None, Some 200000, Some 50000]" by code_simp
  have f: "?f = [''sigU'', ''sigA'', ''sigB'']" by code_simp
  have r2: "map tr_signature
     (getWalletTransactions ex_conn ex_wallet ex_mint 10 1 False (Some 100000) (Some {''sigK''}))
     = [''sigA'']" by code_simp
  have r: "?r \<noteq> []" using rs by auto
  have hr: "hd ?r \<in> set ?r" and lr: "last ?r \<in> set ?r" using r by simp_all
  have hf: "hd ?f \<in> set ?f" using f by simp
  have lt: "tr_timestamp (last ?r) = last (map tr_timestamp ?r)"
    using r by (simp add: last_map)
  note t = getWalletTransactions_incremental [of ex_conn ex_wallet ex_mint 10 1 False
      "Some 40000" "{''sigK''}" 40000 "Some {''sigK''}"]
  have a: "tr_signature (hd ?r) \<notin> {''sigK''}" using t hr by blast
  have b: "hd ?f \<notin> {''sigK''}" using t hf by blast
  have "case tr_timestamp (last ?r) of None \<Rightarrow> True | Some t \<Rightarrow> 40000 \<le> t"
    using t ex_conn_pages lr by blast
  then have c: "40000 \<le> the (tr_timestamp (last ?r))"
    using lt rt by simp
  show ?thesis using p rs rt f r2 a b c by simp
qed

text \<open>
  The claim as worded asks only for newest-first pages. A page may end with a signature
  without block time; the cut-off is then skipped for the whole page (the guard
  \<open>oldestSigTime &&\<close>), and two transfers older than the bound are returned from the same
  page, so neither is its sole new entry.
\<close>

theorem getWalletTransactions_incremental_counterexample:
  "newestFirstKnown ex_pageNull \<and>
   signaturesFor ex_connNull (trim ex_wallet) None = Some ex_pageNull \<and>
   map tr_signature
     (getWalletTransactions ex_connNull ex_wallet ex_mint 10 1 False (Some 100000) (Some {}))
     = [''sigA'', ''sigB'', ''sigC''] \<and>
   map tr_timestamp
     (getWalletTransactions ex_connNull ex_wallet ex_mint 10 1 False (Some 100000) (Some {}))
     = [Some 50000, Some 40000, None] \<and>
   (50000 :: int) < 100000 \<and> (40000 :: int) < 100000"
  by code_simp

subsection \<open>The early exit\<close>








section \<open>Properties of the watch set\<close>

lemma addWallets_unique_if_batch_unique:
  assumes "uniqueAddresses prev" and "uniqueAddresses newWallets"
  shows "uniqueAddresses (addWallets prev newWallets)"
proof -
  let ?key = "\<lambda>w. toLowerCase (w_address w)"
  let ?new = "filter (\<lambda>w. ?key w \<notin> set (map ?key prev)) newWallets"
  have d: "distinct (map ?key ?new)"
    using assms(2) by (simp add: uniqueAddresses_def distinct_map_filter)
  have disj: "set (map ?key prev) \<inter> set (map ?key ?new) = {}"
    by (auto simp: image_iff)
  show ?thesis
    using assms(1) d disj
    unfolding uniqueAddresses_def addWallets_def Let_def
    by (simp only: map_append distinct_append)
qed

text \<open>
  Claim C9. The watch set is meant to keep its addresses pairwise distinct up to case.
  \<open>addWallets\<close> filters the imported batch against the previous watch set only: from
  the empty watch set, a batch that lists one address twice (here in two spellings)
  is admitted whole, and the resulting watch set has a duplicate.
\<close>

theorem addWallets_duplicate_in_batch:
  "uniqueAddresses [] \<and> addWallets [] [ex_w1, ex_w2] = [ex_w1, ex_w2] \<and>
   \<not> uniqueAddresses (addWallets [] [ex_w1, ex_w2])"
  by code_simp

end
